theory Spec2Isabelle
  imports Main "HOL-Library.Sublist"
begin

section \<open>Python values used by the SPARQL client\<close>

text \<open>
  A Python \<open>str\<close> is modelled by its UTF-8 encoding, a \<open>string\<close> (HOL characters are
  bytes); \<open>bytes\<close> objects are byte strings as well. A \<open>str\<close> holding a lone surrogate
  has no UTF-8 encoding and is outside the model.
\<close>

subsection \<open>Strings\<close>

text \<open>\<open>s.startswith(p)\<close>.\<close>

definition startswith :: "string \<Rightarrow> string \<Rightarrow> bool" where
  "startswith s p = (take (length p) s = p)"

text \<open>\<open>p in s\<close> for two strings: \<open>p\<close> occurs in \<open>s\<close> as a contiguous run.\<close>

fun str_in :: "string \<Rightarrow> string \<Rightarrow> bool" where
  "str_in p [] = (p = [])"
| "str_in p (c # cs) = (startswith (c # cs) p \<or> str_in p cs)"

text \<open>
  Modelled from the spec: \<open>removeprefix\<close> of \<open>pywikibot.backports\<close>, which is not among the
  sources. The spec has it return the suffix of the string after the prefix; a string
  that does not start with the prefix is returned unchanged.
\<close>

definition removeprefix :: "string \<Rightarrow> string \<Rightarrow> string" where
  "removeprefix s p = (if startswith s p then drop (length p) s else s)"

text \<open>
  \<open>bytes.decode()\<close>: strict UTF-8. The decoder rejects stray continuation bytes,
  truncated sequences, overlong forms, surrogates and code points above U+10FFFF.
  The argument is the list of byte values.
\<close>

definition cont_byte :: "nat \<Rightarrow> bool" where
  "cont_byte b = (0x80 \<le> b \<and> b \<le> 0xBF)"

fun utf8_ok :: "nat list \<Rightarrow> bool" where
  "utf8_ok [] = True"
| "utf8_ok (b # bs) =
     (if b < 0x80 then utf8_ok bs
      else if 0xC2 \<le> b \<and> b \<le> 0xDF then
        (case bs of
           c1 # r \<Rightarrow> cont_byte c1 \<and> utf8_ok r
         | _ \<Rightarrow> False)
      else if 0xE0 \<le> b \<and> b \<le> 0xEF then
        (case bs of
           c1 # c2 # r \<Rightarrow>
             (if b = 0xE0 then 0xA0 \<le> c1 \<and> c1 \<le> 0xBF
              else if b = 0xED then 0x80 \<le> c1 \<and> c1 \<le> 0x9F
              else cont_byte c1)
             \<and> cont_byte c2 \<and> utf8_ok r
         | _ \<Rightarrow> False)
      else if 0xF0 \<le> b \<and> b \<le> 0xF4 then
        (case bs of
           c1 # c2 # c3 # r \<Rightarrow>
             (if b = 0xF0 then 0x90 \<le> c1 \<and> c1 \<le> 0xBF
              else if b = 0xF4 then 0x80 \<le> c1 \<and> c1 \<le> 0x8F
              else cont_byte c1)
             \<and> cont_byte c2 \<and> cont_byte c3 \<and> utf8_ok r
         | _ \<Rightarrow> False)
      else False)"

text \<open>
  Iterating over a \<open>str\<close> yields its characters: the UTF-8 string is cut before every
  byte that is not a continuation byte.
\<close>

function str_chars :: "string \<Rightarrow> string list" where
  "str_chars [] = []"
| "str_chars (c # cs) =
     (c # takeWhile (\<lambda>d. cont_byte (of_char d)) cs)
       # str_chars (dropWhile (\<lambda>d. cont_byte (of_char d)) cs)"
  by pat_completeness auto
termination
  by (relation "measure length") (auto simp: less_Suc_eq_le length_dropWhile_le)

text \<open>
  \<open>urllib.parse.quote\<close> with its default arguments: letters, digits and \<open>_.-~/\<close>
  are kept, every other byte of the UTF-8 encoding becomes \<open>%XX\<close> in upper-case hex.
\<close>

definition quote_safe :: "char \<Rightarrow> bool" where
  "quote_safe c =
     (c \<in> set ''ABCDEFGHIJKLMNOPQRSTUVWXYZabcdefghijklmnopqrstuvwxyz0123456789_.-~/'')"

definition hex_digit :: "nat \<Rightarrow> char" where
  "hex_digit n = ''0123456789ABCDEF'' ! (n mod 16)"

definition quote_char :: "char \<Rightarrow> string" where
  "quote_char c =
     (if quote_safe c then [c]
      else [CHR ''%'', hex_digit (of_char c div 16), hex_digit (of_char c mod 16)])"

definition quote :: "string \<Rightarrow> string" where
  "quote s = concat (map quote_char s)"

text \<open>\<open>str(n)\<close> for an integer: decimal digits, with a minus sign when negative.\<close>

fun nat_digits :: "nat \<Rightarrow> string" where
  "nat_digits n =
     (if n < 10 then [''0123456789'' ! n]
      else nat_digits (n div 10) @ [''0123456789'' ! (n mod 10)])"

declare nat_digits.simps [simp del]

definition int_str :: "int \<Rightarrow> string" where
  "int_str i = (if i < 0 then CHR ''-'' # nat_digits (nat (- i)) else nat_digits (nat i))"

subsection \<open>Decoded JSON documents\<close>

text \<open>
  What \<open>Response.json()\<close> returns: \<open>None\<close>, \<open>bool\<close>, \<open>int\<close>, \<open>str\<close>, \<open>list\<close> and
  \<open>dict\<close> values. A \<open>dict\<close> is an association list in insertion order, read by its
  first entry for a key (a decoded \<open>dict\<close> has one entry per key). Numbers with a
  fraction or an exponent decode to floats, which are not modelled.
\<close>

datatype jsonval =
    JNull
  | JBool bool
  | JInt int
  | JStr string
  | JArr "jsonval list"
  | JObj "(string \<times> jsonval) list"

datatype py_error =
    TypeError
  | KeyError
  | IndexError
  | AttributeError
  | ValueError string
  | UnicodeDecodeError
  | NoUsernameError
  | NotImplementedError string
  | Error string
  | Raised string  \<comment> \<open>any other exception of a collaborator, by name\<close>

text \<open>Sequencing of computations that may raise: the first exception wins.\<close>

definition and_then :: "py_error + 'a \<Rightarrow> ('a \<Rightarrow> py_error + 'b) \<Rightarrow> py_error + 'b" where
  "and_then r f = (case r of Inl e \<Rightarrow> Inl e | Inr x \<Rightarrow> f x)"

text \<open>Truth value of an object (\<open>not data\<close>).\<close>

fun py_bool :: "jsonval \<Rightarrow> bool" where
  "py_bool JNull = False"
| "py_bool (JBool b) = b"
| "py_bool (JInt i) = (i \<noteq> 0)"
| "py_bool (JStr s) = (s \<noteq> [])"
| "py_bool (JArr xs) = (xs \<noteq> [])"
| "py_bool (JObj kvs) = (kvs \<noteq> [])"

text \<open>\<open>a == b\<close>: \<open>True\<close> and \<open>False\<close> equal \<open>1\<close> and \<open>0\<close>; a \<open>dict\<close> equals a \<open>dict\<close> with
  the same keys and equal values.\<close>

fun py_eq :: "jsonval \<Rightarrow> jsonval \<Rightarrow> bool" where
  "py_eq JNull JNull = True"
| "py_eq (JBool a) (JBool b) = (a = b)"
| "py_eq (JBool a) (JInt j) = ((if a then 1 else 0) = j)"
| "py_eq (JInt i) (JBool b) = (i = (if b then 1 else 0))"
| "py_eq (JInt i) (JInt j) = (i = j)"
| "py_eq (JStr s) (JStr t) = (s = t)"
| "py_eq (JArr xs) (JArr ys) = list_all2 py_eq xs ys"
| "py_eq (JObj a) (JObj b) =
     (length a = length b \<and>
      list_all (\<lambda>(k, v). case map_of b k of None \<Rightarrow> False | Some w \<Rightarrow> py_eq v w) a)"
| "py_eq _ _ = False"

text \<open>Lists and dicts are unhashable: as a \<open>dict\<close> key they raise \<open>TypeError\<close>.\<close>

fun hashable :: "jsonval \<Rightarrow> bool" where
  "hashable (JArr xs) = False"
| "hashable (JObj kvs) = False"
| "hashable _ = True"

text \<open>\<open>x in c\<close>.\<close>

fun py_in :: "jsonval \<Rightarrow> jsonval \<Rightarrow> py_error + bool" where
  "py_in x (JObj kvs) =
     (if hashable x then Inr (case x of JStr k \<Rightarrow> k \<in> set (map fst kvs) | _ \<Rightarrow> False)
      else Inl TypeError)"
| "py_in x (JArr ys) = Inr (list_ex (\<lambda>y. py_eq y x) ys)"
| "py_in x (JStr s) = (case x of JStr p \<Rightarrow> Inr (str_in p s) | _ \<Rightarrow> Inl TypeError)"
| "py_in x _ = Inl TypeError"

text \<open>Indexing a sequence: a negative index counts from the end.\<close>

definition seq_index :: "'a list \<Rightarrow> int \<Rightarrow> py_error + 'a" where
  "seq_index xs i =
     (if 0 \<le> i then
        (if nat i < length xs then Inr (xs ! nat i) else Inl IndexError)
      else
        (if nat (- i) \<le> length xs then Inr (xs ! (length xs - nat (- i)))
         else Inl IndexError))"

text \<open>\<open>c[k]\<close>.\<close>

fun py_getitem :: "jsonval \<Rightarrow> jsonval \<Rightarrow> py_error + jsonval" where
  "py_getitem (JObj kvs) k =
     (if hashable k then
        (case k of
           JStr s \<Rightarrow> (case map_of kvs s of Some v \<Rightarrow> Inr v | None \<Rightarrow> Inl KeyError)
         | _ \<Rightarrow> Inl KeyError)
      else Inl TypeError)"
| "py_getitem (JArr xs) k =
     (case k of
        JInt i \<Rightarrow> seq_index xs i
      | JBool b \<Rightarrow> seq_index xs (if b then 1 else 0)
      | _ \<Rightarrow> Inl TypeError)"
| "py_getitem (JStr s) k =
     (case k of
        JInt i \<Rightarrow> and_then (seq_index (str_chars s) i) (\<lambda>c. Inr (JStr c))
      | JBool b \<Rightarrow> and_then (seq_index (str_chars s) (if b then 1 else 0)) (\<lambda>c. Inr (JStr c))
      | _ \<Rightarrow> Inl TypeError)"
| "py_getitem _ k = Inl TypeError"

text \<open>\<open>for x in c\<close>: the items a loop visits.\<close>

fun py_iter :: "jsonval \<Rightarrow> py_error + jsonval list" where
  "py_iter (JArr xs) = Inr xs"
| "py_iter (JObj kvs) = Inr (map (\<lambda>(k, v). JStr k) kvs)"
| "py_iter (JStr s) = Inr (map JStr (str_chars s))"
| "py_iter _ = Inl TypeError"

text \<open>\<open>data.get(key)\<close>: only a \<open>dict\<close> has the method; a missing key gives \<open>None\<close>.\<close>

fun py_get :: "jsonval \<Rightarrow> string \<Rightarrow> py_error + jsonval" where
  "py_get (JObj kvs) k = Inr (case map_of kvs k of Some v \<Rightarrow> v | None \<Rightarrow> JNull)"
| "py_get _ k = Inl AttributeError"

text \<open>
  \<open>str(x)\<close> as an f-string formats it, for the hashable values. The client formats a
  type tag only after it was looked up in \<open>VALUE_TYPES\<close>, where a list or a dict raises
  \<open>TypeError\<close> first.
\<close>

fun py_str :: "jsonval \<Rightarrow> string" where
  "py_str JNull = ''None''"
| "py_str (JBool b) = (if b then ''True'' else ''False'')"
| "py_str (JInt i) = int_str i"
| "py_str (JStr s) = s"

section \<open>The RDF value model\<close>

text \<open>
  \<open>SparqlNode\<close> and its three subclasses. Each constructor reads its fields with
  \<open>data.get\<close>, so a field is any decoded value, \<open>None\<close> when the key is missing. A \<open>URI\<close>
  also keeps the endpoint's \<open>entity_url\<close>; a \<open>Literal\<close> keeps \<open>datatype\<close> and \<open>xml:lang\<close>.
\<close>

datatype sparql_node =
    URI jsonval string
  | Literal jsonval jsonval jsonval
  | Bnode jsonval

definition new_URI :: "jsonval \<Rightarrow> string \<Rightarrow> py_error + sparql_node" where
  "new_URI data entity_url = and_then (py_get data ''value'') (\<lambda>v. Inr (URI v entity_url))"

definition new_Literal :: "jsonval \<Rightarrow> string \<Rightarrow> py_error + sparql_node" where
  "new_Literal data entity_url =
     and_then (py_get data ''value'') (\<lambda>v.
     and_then (py_get data ''datatype'') (\<lambda>t.
     and_then (py_get data ''xml:lang'') (\<lambda>l. Inr (Literal v t l))))"

definition new_Bnode :: "jsonval \<Rightarrow> string \<Rightarrow> py_error + sparql_node" where
  "new_Bnode data entity_url = and_then (py_get data ''value'') (\<lambda>v. Inr (Bnode v))"

definition VALUE_TYPES :: "(string \<times> (jsonval \<Rightarrow> string \<Rightarrow> py_error + sparql_node)) list" where
  "VALUE_TYPES = [(''uri'', new_URI), (''literal'', new_Literal), (''bnode'', new_Bnode)]"

text \<open>
  \<open>URI.getID\<close>. Only a \<open>str\<close> has \<open>startswith\<close>: on any other \<open>value\<close> the call
  raises \<open>AttributeError\<close>. \<open>Literal\<close> and \<open>Bnode\<close> have no \<open>getID\<close> method.
\<close>

fun getID :: "sparql_node \<Rightarrow> py_error + string option" where
  "getID (URI v entity_url) =
     (case v of
        JStr s \<Rightarrow>
          (if startswith s entity_url then Inr (Some (removeprefix s entity_url))
           else Inr None)
      | _ \<Rightarrow> Inl AttributeError)"
| "getID _ = Inl AttributeError"

text \<open>
  A value of a result row: a decoded JSON value (\<open>None\<close> for an unbound variable, the
  raw \<open>value\<close> field otherwise) or a node object.
\<close>

datatype pyobj = Json jsonval | Node sparql_node

text \<open>\<open>x.getID()\<close> on a row value: \<open>None\<close> and the other JSON values have no such method.\<close>

fun call_getID :: "pyobj \<Rightarrow> py_error + string option" where
  "call_getID (Node n) = getID n"
| "call_getID (Json v) = Inl AttributeError"

text \<open>
  The \<open>values\<close> dict of a row, in insertion order. Storing under a key equal to an
  existing one replaces the value and keeps the old key and its place.
\<close>

type_synonym pydict = "(jsonval \<times> pyobj) list"

fun dict_store :: "pydict \<Rightarrow> jsonval \<Rightarrow> pyobj \<Rightarrow> pydict" where
  "dict_store [] k v = [(k, v)]"
| "dict_store ((k', v') # d) k v =
     (if py_eq k' k then (k', v) # d else (k', v') # dict_store d k v)"

definition dict_setitem :: "pydict \<Rightarrow> jsonval \<Rightarrow> pyobj \<Rightarrow> py_error + pydict" where
  "dict_setitem d k v = (if hashable k then Inr (dict_store d k v) else Inl TypeError)"

fun dict_lookup :: "pydict \<Rightarrow> jsonval \<Rightarrow> pyobj option" where
  "dict_lookup [] k = None"
| "dict_lookup ((k', v') # d) k = (if py_eq k' k then Some v' else dict_lookup d k)"

definition dict_getitem :: "pydict \<Rightarrow> jsonval \<Rightarrow> py_error + pyobj" where
  "dict_getitem d k =
     (if hashable k then
        (case dict_lookup d k of Some v \<Rightarrow> Inr v | None \<Rightarrow> Inl KeyError)
      else Inl TypeError)"

section \<open>The query executor\<close>

text \<open>
  The transport's response object, by what the client reads of it: the raw \<open>content\<close>
  bytes, and the outcome of \<open>json()\<close>, the decoded document or \<open>None\<close> when it raises
  \<open>JSONDecodeError\<close>.
\<close>

record response =
  content :: string
  json :: "jsonval option"

text \<open>What one call of \<open>http.fetch\<close> does: it returns a response, raises \<open>Timeout\<close>, or
  raises another exception.\<close>

datatype fetch_result = Response response | Timeout | Failure string

type_synonym headers = "(string \<times> string) list"

text \<open>
  The collaborators act on a world \<open>'w\<close> (the network, the clock, the retry
  bookkeeping of \<open>WaitingMixin\<close>). \<open>wait\<close> returns the exception it raises, if any.
\<close>

type_synonym 'w fetch = "string \<Rightarrow> headers \<Rightarrow> 'w \<Rightarrow> fetch_result \<times> 'w"
type_synonym 'w wait = "'w \<Rightarrow> py_error option \<times> 'w"

text \<open>A Python \<open>float\<close>. The client stores one (\<open>retry_wait\<close>) and never computes with it.\<close>

typedecl pyfloat

text \<open>
  The attributes of a \<open>SparqlQuery\<close>. \<open>max_retries\<close> and \<open>retry_wait\<close> are \<open>None\<close> when
  the instance does not set them and the defaults of \<open>WaitingMixin\<close> apply.
\<close>

record sparql_query =
  endpoint :: string
  entity_url :: string
  last_response :: "response option"
  max_retries :: "int option"
  retry_wait :: "pyfloat option"

definition DEFAULT_HEADERS :: headers where
  "DEFAULT_HEADERS =
     [(''cache-control'', ''no-cache''), (''Accept'', ''application/sparql-results+json'')]"


text \<open>
  The \<open>while True\<close> loop of \<open>query\<close>: it ends with the response of the first fetch
  that returns, or with the first exception other than a \<open>Timeout\<close> of the transport.
  The result is \<open>None\<close> when the loop runs forever.
\<close>

partial_function (option) fetch_loop ::
  "'w fetch \<Rightarrow> 'w wait \<Rightarrow> string \<Rightarrow> headers \<Rightarrow> 'w \<Rightarrow> ((py_error + response) \<times> 'w) option"
where
  "fetch_loop fetch wait url hdrs w =
     (case fetch url hdrs w of
        (Response r, w1) \<Rightarrow> Some (Inr r, w1)
      | (Failure x, w1) \<Rightarrow> Some (Inl (Raised x), w1)
      | (Timeout, w1) \<Rightarrow>
          (case wait w1 of
             (Some e, w2) \<Rightarrow> Some (Inl e, w2)
           | (None, w2) \<Rightarrow> fetch_loop fetch wait url hdrs w2))"

text \<open>The part of \<open>query\<close> after the loop: decode the response, or classify the failure.\<close>

definition decode_response :: "string \<Rightarrow> response \<Rightarrow> py_error + jsonval" where
  "decode_response url r =
     (case json r of
        Some d \<Rightarrow> Inr d
      | None \<Rightarrow>
          (if \<not> utf8_ok (map of_char (content r)) then Inl UnicodeDecodeError
           else
             (let strcontent = content r in
              if startswith strcontent ''<!DOCTYPE html>''
                 \<and> str_in ''https://commons-query.wikimedia.org'' url
                 \<and> (str_in ''Special:UserLogin'' strcontent
                      \<or> str_in ''Special:OAuth'' strcontent)
              then Inl NoUsernameError
              else Inr JNull)))"

type_synonym ('a, 'w) outcome = "((py_error + 'a) \<times> sparql_query \<times> 'w) option"

definition query ::
  "'w fetch \<Rightarrow> 'w wait \<Rightarrow> sparql_query \<Rightarrow> string \<Rightarrow> headers option \<Rightarrow> 'w \<Rightarrow> (jsonval, 'w) outcome"
where
  "query fetch wait self q headers w =
     (let hdrs = (case headers of None \<Rightarrow> DEFAULT_HEADERS | Some h \<Rightarrow> h);
          self1 = self\<lparr>last_response := None\<rparr>;
          url = endpoint self1 @ ''?query='' @ quote q
      in case fetch_loop fetch wait url hdrs w of
           None \<Rightarrow> None
         | Some (Inl e, w1) \<Rightarrow> Some (Inl e, self1, w1)
         | Some (Inr r, w1) \<Rightarrow>
             Some (decode_response url r, self1\<lparr>last_response := Some r\<rparr>, w1))"

section \<open>The result projector\<close>

text \<open>
  The body of the inner loop of \<open>select\<close>, up to the assignment: the object that
  \<open>values[var]\<close> is to receive, by the three branches of the \<open>if\<close>.
\<close>

definition var_value :: "string \<Rightarrow> bool \<Rightarrow> jsonval \<Rightarrow> jsonval \<Rightarrow> py_error + pyobj" where
  "var_value eurl full_data row var =
     and_then (py_in var row) (\<lambda>bound.
       if \<not> bound then Inr (Json JNull)
       else if full_data then
         and_then (py_getitem row var) (\<lambda>term.
         and_then (py_getitem term (JStr ''type'')) (\<lambda>tag.
           if \<not> hashable tag then Inl TypeError
           else
             (case (case tag of JStr t \<Rightarrow> map_of VALUE_TYPES t | _ \<Rightarrow> None) of
                None \<Rightarrow> Inl (ValueError (''Unknown type: '' @ py_str tag))
              | Some valtype \<Rightarrow>
                  and_then (valtype term eurl) (\<lambda>node. Inr (Node node)))))
       else
         and_then (py_getitem row var) (\<lambda>term.
         and_then (py_getitem term (JStr ''value'')) (\<lambda>v. Inr (Json v))))"

text \<open>
  The inner loop: one pass over the declared variables for one binding row, storing
  each object in the \<open>values\<close> dict.
\<close>

fun row_values ::
  "string \<Rightarrow> bool \<Rightarrow> jsonval \<Rightarrow> jsonval list \<Rightarrow> pydict \<Rightarrow> py_error + pydict"
where
  "row_values eurl full_data row [] values = Inr values"
| "row_values eurl full_data row (var # qvars) values =
     and_then (var_value eurl full_data row var) (\<lambda>x.
     and_then (dict_setitem values var x)
       (row_values eurl full_data row qvars))"

text \<open>The outer loop: one \<open>values\<close> dict per binding row, appended in order.\<close>

fun select_rows ::
  "string \<Rightarrow> bool \<Rightarrow> jsonval \<Rightarrow> jsonval list \<Rightarrow> py_error + pydict list"
where
  "select_rows eurl full_data qvars [] = Inr []"
| "select_rows eurl full_data qvars (row # rows) =
     and_then (py_iter qvars) (\<lambda>vars.
     and_then (row_values eurl full_data row vars []) (\<lambda>values.
     and_then (select_rows eurl full_data qvars rows) (\<lambda>result.
       Inr (values # result))))"

text \<open>What \<open>select\<close> does with the document that \<open>query\<close> returned.\<close>

definition select_data :: "string \<Rightarrow> bool \<Rightarrow> jsonval \<Rightarrow> py_error + pydict list option" where
  "select_data eurl full_data data =
     (if \<not> py_bool data then Inr None
      else
        and_then (py_in (JStr ''results'') data) (\<lambda>present.
          if \<not> present then Inr None
          else
            and_then (py_getitem data (JStr ''head'')) (\<lambda>head.
            and_then (py_getitem head (JStr ''vars'')) (\<lambda>qvars.
            and_then (py_getitem data (JStr ''results'')) (\<lambda>results.
            and_then (py_getitem results (JStr ''bindings'')) (\<lambda>bindings.
            and_then (py_iter bindings) (\<lambda>rows.
            and_then (select_rows eurl full_data qvars rows) (\<lambda>result.
              Inr (Some result)))))))))"

definition select ::
  "'w fetch \<Rightarrow> 'w wait \<Rightarrow> sparql_query \<Rightarrow> string \<Rightarrow> bool \<Rightarrow> headers option \<Rightarrow> 'w
     \<Rightarrow> (pydict list option, 'w) outcome"
where
  "select fetch wait self q full_data headers w =
     (let hdrs = (case headers of None \<Rightarrow> DEFAULT_HEADERS | Some h \<Rightarrow> h)
      in case query fetch wait self q (Some hdrs) w of
           None \<Rightarrow> None
         | Some (Inl e, self1, w1) \<Rightarrow> Some (Inl e, self1, w1)
         | Some (Inr data, self1, w1) \<Rightarrow>
             Some (select_data (entity_url self1) full_data data, self1, w1))"

definition ask ::
  "'w fetch \<Rightarrow> 'w wait \<Rightarrow> sparql_query \<Rightarrow> string \<Rightarrow> headers option \<Rightarrow> 'w \<Rightarrow> (jsonval, 'w) outcome"
where
  "ask fetch wait self q headers w =
     (let hdrs = (case headers of None \<Rightarrow> DEFAULT_HEADERS | Some h \<Rightarrow> h)
      in case query fetch wait self q (Some hdrs) w of
           None \<Rightarrow> None
         | Some (Inl e, self1, w1) \<Rightarrow> Some (Inl e, self1, w1)
         | Some (Inr data, self1, w1) \<Rightarrow>
             Some (py_getitem data (JStr ''boolean''), self1, w1))"

text \<open>
  The generator \<open>r[item_name].getID() for r in res\<close>, run to its end: the identifiers
  in row order, or the first exception.
\<close>

fun item_ids :: "string \<Rightarrow> pydict list \<Rightarrow> py_error + string option list" where
  "item_ids item_name [] = Inr []"
| "item_ids item_name (r # res) =
     and_then (dict_getitem r (JStr item_name)) (\<lambda>x.
     and_then (call_getID x) (\<lambda>i.
     and_then (item_ids item_name res) (\<lambda>ids. Inr (i # ids))))"

text \<open>
  The containers \<open>set\<close> and \<open>list\<close> built from the items of an iterable. \<open>get_items\<close>
  takes the container type as a function of the list of items; called without
  arguments it is applied to no items. The defaults of the source, \<open>item_name='item'\<close>
  and \<open>result_type=set\<close>, are the arguments \<open>''item''\<close> and \<open>py_set\<close>.
\<close>

definition py_set :: "'a list \<Rightarrow> 'a set" where
  "py_set xs = set xs"

definition py_list :: "'a list \<Rightarrow> 'a list" where
  "py_list xs = xs"

definition get_items ::
  "'w fetch \<Rightarrow> 'w wait \<Rightarrow> sparql_query \<Rightarrow> string \<Rightarrow> string \<Rightarrow> (string option list \<Rightarrow> 'c) \<Rightarrow> 'w
     \<Rightarrow> ('c, 'w) outcome"
where
  "get_items fetch wait self q item_name result_type w =
     (case select fetch wait self q True None w of
        None \<Rightarrow> None
      | Some (Inl e, self1, w1) \<Rightarrow> Some (Inl e, self1, w1)
      | Some (Inr res, self1, w1) \<Rightarrow>
          (case res of
             Some (r # rs) \<Rightarrow>
               Some (and_then (item_ids item_name (r # rs)) (\<lambda>ids. Inr (result_type ids)),
                     self1, w1)
           | _ \<Rightarrow> Some (Inr (result_type []), self1, w1)))"

section \<open>Construction\<close>

text \<open>
  A site (\<open>DataSite\<close>) by the two properties the constructor reads, each of which may
  raise, and the text \<open>str(repo)\<close>. \<open>sparql_endpoint\<close> may be \<open>None\<close>.
\<close>

record site =
  site_str :: string
  sparql_endpoint :: "py_error + string option"
  concept_base_uri :: "py_error + string"

text \<open>The \<open>try\<close> block: both properties are read; a \<open>NotImplementedError\<close> of either is
  replaced by the constructor's own, any other exception passes.\<close>

definition read_site :: "site \<Rightarrow> py_error + string option \<times> string" where
  "read_site repo =
     (case and_then (sparql_endpoint repo) (\<lambda>e.
           and_then (concept_base_uri repo) (\<lambda>u. Inr (e, u))) of
        Inl (NotImplementedError m) \<Rightarrow>
          Inl (NotImplementedError
            (''Wiki version must be 1.28-wmf.23 or newer to ''
             @ ''automatically extract the sparql endpoint. ''
             @ ''Please provide the endpoint and entity_url ''
             @ ''parameters instead of a repo.''))
      | Inl e \<Rightarrow> Inl e
      | Inr p \<Rightarrow> Inr p)"

text \<open>The repo branch of the constructor: the site's endpoint must not be empty.\<close>

definition from_site :: "site \<Rightarrow> py_error + string \<times> string" where
  "from_site repo =
     and_then (read_site repo) (\<lambda>(e, u).
       case e of
         None \<Rightarrow>
           Inl (Error (''The site '' @ site_str repo @ '' does not provide a sparql endpoint.''))
       | Some ep \<Rightarrow>
           if ep = [] then
             Inl (Error (''The site '' @ site_str repo @ '' does not provide a sparql endpoint.''))
           else Inr (ep, u))"

text \<open>The other branch: an endpoint was given, and the entity URL must be given too.\<close>

definition from_args :: "string \<Rightarrow> string option \<Rightarrow> py_error + string \<times> string" where
  "from_args ep entity_url_arg =
     (case entity_url_arg of
        None \<Rightarrow>
          Inl (Error (''If initialised with an endpoint the entity_url must be provided.''))
      | Some u \<Rightarrow>
          if u = [] then
            Inl (Error (''If initialised with an endpoint the entity_url must be provided.''))
          else Inr (ep, u))"

text \<open>
  \<open>SparqlQuery.__init__\<close>. \<open>Site_wikidata\<close> is the outcome of \<open>Site('wikidata')\<close>, the
  default when neither a repo nor a non-empty endpoint is given. \<open>max_retries\<close> and
  \<open>retry_wait\<close> are set on the instance only when given.
\<close>

definition init ::
  "py_error + site \<Rightarrow> string option \<Rightarrow> string option \<Rightarrow> site option \<Rightarrow> int option
     \<Rightarrow> pyfloat option \<Rightarrow> py_error + sparql_query"
where
  "init Site_wikidata endpoint_arg entity_url_arg repo_arg max_retries_arg retry_wait_arg =
     and_then
       (case repo_arg of
          Some r \<Rightarrow> from_site r
        | None \<Rightarrow>
            (case endpoint_arg of
               None \<Rightarrow> and_then Site_wikidata from_site
             | Some ep \<Rightarrow>
                 if ep = [] then and_then Site_wikidata from_site
                 else from_args ep entity_url_arg))
       (\<lambda>(e, u).
          Inr \<lparr>endpoint = e, entity_url = u, last_response = None,
               max_retries = max_retries_arg, retry_wait = retry_wait_arg\<rparr>)"

section \<open>The specification of the projection\<close>

text \<open>
  The definitions of this section follow the words of the specification, not the
  code; the code's \<open>select\<close> is compared with them.
\<close>

text \<open>A field of a term descriptor, \<open>None\<close> when the descriptor does not have it.\<close>

definition field :: "(string \<times> jsonval) list \<Rightarrow> string \<Rightarrow> jsonval" where
  "field d k = (case map_of d k of Some v \<Rightarrow> v | None \<Rightarrow> JNull)"

text \<open>The type tag of a term descriptor, when it is an object with a string under \<open>type\<close>.\<close>

definition term_tag :: "jsonval \<Rightarrow> string option" where
  "term_tag t =
     (case t of
        JObj d \<Rightarrow> (case map_of d ''type'' of Some (JStr tag) \<Rightarrow> Some tag | _ \<Rightarrow> None)
      | _ \<Rightarrow> None)"

text \<open>
  A well-formed term descriptor: an object whose \<open>type\<close> is one of the three
  recognised tags and which has a \<open>value\<close>.
\<close>

definition wf_term :: "jsonval \<Rightarrow> bool" where
  "wf_term t =
     (case t of
        JObj d \<Rightarrow>
          (case term_tag t of
             Some tag \<Rightarrow> tag = ''uri'' \<or> tag = ''literal'' \<or> tag = ''bnode''
           | None \<Rightarrow> False)
          \<and> map_of d ''value'' \<noteq> None
      | _ \<Rightarrow> False)"

text \<open>
  The RDF node of a term descriptor, by its tag: a URI node holds the value and the
  endpoint's entity URI prefix, a literal the value, the datatype and the language, a
  blank node the value.
\<close>

definition rdf_node :: "string \<Rightarrow> jsonval \<Rightarrow> sparql_node option" where
  "rdf_node eurl t =
     (case t of
        JObj d \<Rightarrow>
          (case term_tag t of
             Some tag \<Rightarrow>
               if tag = ''uri'' then Some (URI (field d ''value'') eurl)
               else if tag = ''literal'' then
                 Some (Literal (field d ''value'') (field d ''datatype'') (field d ''xml:lang''))
               else if tag = ''bnode'' then Some (Bnode (field d ''value''))
               else None
           | None \<Rightarrow> None)
      | _ \<Rightarrow> None)"

text \<open>
  What a result mapping holds for a declared variable: null when the row does not
  bind it, the decoded node in full-data mode, the raw \<open>value\<close> field otherwise.
\<close>

definition projected_value ::
  "string \<Rightarrow> bool \<Rightarrow> (string \<times> jsonval) list \<Rightarrow> string \<Rightarrow> pyobj option"
where
  "projected_value eurl full_data row v =
     (case map_of row v of
        None \<Rightarrow> Some (Json JNull)
      | Some t \<Rightarrow>
          if full_data then map_option Node (rdf_node eurl t)
          else (case t of JObj d \<Rightarrow> map_option Json (map_of d ''value'') | _ \<Rightarrow> None))"

text \<open>A tag other than the three recognised ones.\<close>

definition unknown_tag :: "string \<Rightarrow> bool" where
  "unknown_tag tag = (tag \<noteq> ''uri'' \<and> tag \<noteq> ''literal'' \<and> tag \<noteq> ''bnode'')"

text \<open>
  The type tags of the terms that a row binds to the declared variables, in the order
  of the variables, and the first unrecognised one of a result, row by row.
\<close>

definition bound_tags :: "string list \<Rightarrow> (string \<times> jsonval) list \<Rightarrow> string list" where
  "bound_tags vs row =
     List.map_filter (\<lambda>v. case map_of row v of Some t \<Rightarrow> term_tag t | None \<Rightarrow> None) vs"

definition first_unknown_tag ::
  "string list \<Rightarrow> (string \<times> jsonval) list list \<Rightarrow> string option"
where
  "first_unknown_tag vs rows = find unknown_tag (concat (map (bound_tags vs) rows))"

text \<open>
  The shape of a SELECT response: an object whose \<open>head.vars\<close> is the list of the
  declared variables \<open>vs\<close> and whose \<open>results.bindings\<close> is the list of the binding
  rows \<open>rows\<close>, each an object from variable names to terms.
\<close>

definition is_select_doc ::
  "jsonval \<Rightarrow> string list \<Rightarrow> (string \<times> jsonval) list list \<Rightarrow> bool"
where
  "is_select_doc data vs rows =
     (case data of
        JObj obj \<Rightarrow>
          (case (map_of obj ''head'', map_of obj ''results'') of
             (Some (JObj hdr), Some (JObj rslt)) \<Rightarrow>
               map_of hdr ''vars'' = Some (JArr (map JStr vs))
               \<and> map_of rslt ''bindings'' = Some (JArr (map JObj rows))
           | _ \<Rightarrow> False)
      | _ \<Rightarrow> False)"

text \<open>
  A row is well formed when every term it binds to a declared variable is; it is
  typed when every such term has a type tag, recognised or not.
\<close>

definition wf_row :: "string list \<Rightarrow> (string \<times> jsonval) list \<Rightarrow> bool" where
  "wf_row vs row = list_all (\<lambda>v. case map_of row v of None \<Rightarrow> True | Some t \<Rightarrow> wf_term t) vs"

definition typed_row :: "string list \<Rightarrow> (string \<times> jsonval) list \<Rightarrow> bool" where
  "typed_row vs row =
     list_all (\<lambda>v. case map_of row v of None \<Rightarrow> True | Some t \<Rightarrow> term_tag t \<noteq> None) vs"

text \<open>
  The identifier of an entity URI: what follows the entity URI prefix, for a URI that
  starts with it. A row binds a variable to a URI when the term under that name has
  the tag \<open>uri\<close> and that string as its value.
\<close>

definition entity_id :: "string \<Rightarrow> string \<Rightarrow> string option" where
  "entity_id eurl u = (if prefix eurl u then Some (drop (length eurl) u) else None)"

definition binds_uri :: "(string \<times> jsonval) list \<Rightarrow> string \<Rightarrow> string \<Rightarrow> bool" where
  "binds_uri row v u =
     (case map_of row v of
        Some (JObj d) \<Rightarrow>
          map_of d ''type'' = Some (JStr ''uri'') \<and> map_of d ''value'' = Some (JStr u)
      | _ \<Rightarrow> False)"

section \<open>Observing the transport\<close>

text \<open>
  A transport that also records every request it is sent, and the wait primitive
  lifted to the world with that record. They are used to state which requests a call
  of \<open>query\<close> sends.
\<close>

definition recording :: "'w fetch \<Rightarrow> ('w \<times> (string \<times> headers) list) fetch" where
  "recording fetch url hdrs =
     (\<lambda>(w, log). case fetch url hdrs w of (r, w1) \<Rightarrow> (r, (w1, log @ [(url, hdrs)])))"

definition unrecorded :: "'w wait \<Rightarrow> ('w \<times> (string \<times> headers) list) wait" where
  "unrecorded wait = (\<lambda>(w, log). case wait w of (e, w1) \<Rightarrow> (e, (w1, log)))"

section \<open>Example instances\<close>

definition wikidata :: sparql_query where
  "wikidata =
     \<lparr>endpoint = ''https://query.wikidata.org/sparql'',
      entity_url = ''http://www.wikidata.org/entity/'',
      last_response = None, max_retries = None, retry_wait = None\<rparr>"

definition commons :: sparql_query where
  "commons =
     \<lparr>endpoint = ''https://commons-query.wikimedia.org/sparql'',
      entity_url = ''https://commons.wikimedia.org/entity/'',
      last_response = None, max_retries = None, retry_wait = None\<rparr>"

definition login_page :: response where
  "login_page =
     \<lparr>content = ''<!DOCTYPE html><a href=/wiki/Special:UserLogin>Log in</a>'',
      json = None\<rparr>"

text \<open>A transport that always answers with the same response, and a wait that never
  raises; the world is a counter of the requests.\<close>

definition answering :: "response \<Rightarrow> nat fetch" where
  "answering r url hdrs n = (Response r, Suc n)"

definition patient :: "nat wait" where
  "patient n = (None, n)"

text \<open>A transport that times out on its first \<open>k\<close> requests, one that fails with
  another exception, and a wait primitive whose retries are used up.\<close>

definition timing_out :: "nat \<Rightarrow> response \<Rightarrow> nat fetch" where
  "timing_out k r url hdrs n = (if n < k then Timeout else Response r, Suc n)"

definition failing :: "string \<Rightarrow> nat fetch" where
  "failing x url hdrs n = (Failure x, Suc n)"

definition exhausted :: "nat wait" where
  "exhausted n = (Some (Raised ''TimeoutError''), n)"

text \<open>Responses to an ASK query, and sites as a constructor may be given them.\<close>

definition ask_true :: response where
  "ask_true = \<lparr>content = ''{\"boolean\": true}'', json = Some (JObj [(''boolean'', JBool True)])\<rparr>"

definition empty_object :: response where
  "empty_object = \<lparr>content = ''{}'', json = Some (JObj [])\<rparr>"

definition bare_site :: site where
  "bare_site =
     \<lparr>site_str = ''wikibase:test'',
      sparql_endpoint = Inr (Some ''https://query.example.org/sparql''),
      concept_base_uri = Inr ''''\<rparr>"

definition wikidata_site :: site where
  "wikidata_site =
     \<lparr>site_str = ''wikidata:wikidata'',
      sparql_endpoint = Inr (Some ''https://query.wikidata.org/sparql''),
      concept_base_uri = Inr ''http://www.wikidata.org/entity/''\<rparr>"

definition no_sparql_site :: site where
  "no_sparql_site =
     \<lparr>site_str = ''wikipedia:en'',
      sparql_endpoint = Inr None,
      concept_base_uri = Inr ''http://www.wikidata.org/entity/''\<rparr>"

text \<open>
  Term descriptors, binding rows and SELECT responses: a URI term, a literal, a term
  with a tag that the client does not know, and the document with given variables and
  rows. The second of \<open>two_rows\<close> leaves \<open>itemLabel\<close> unbound, and the second of
  \<open>optional_rows\<close> leaves \<open>item\<close> unbound.
\<close>

definition q42 :: jsonval where
  "q42 = JObj [(''type'', JStr ''uri''), (''value'', JStr ''http://www.wikidata.org/entity/Q42'')]"

definition adams :: jsonval where
  "adams = JObj [(''xml:lang'', JStr ''en''), (''type'', JStr ''literal''),
                 (''value'', JStr ''Douglas Adams'')]"

definition quoted_triple :: jsonval where
  "quoted_triple = JObj [(''type'', JStr ''triple''), (''value'', JStr ''<<s p o>>'')]"

definition select_doc :: "string list \<Rightarrow> (string \<times> jsonval) list list \<Rightarrow> jsonval" where
  "select_doc vs rows =
     JObj [(''head'', JObj [(''vars'', JArr (map JStr vs))]),
           (''results'', JObj [(''bindings'', JArr (map JObj rows))])]"

definition two_rows :: "(string \<times> jsonval) list list" where
  "two_rows = [[(''item'', q42), (''itemLabel'', adams)], [(''item'', q42)]]"

definition json_response :: "jsonval \<Rightarrow> response" where
  "json_response d = \<lparr>content = ''{...}'', json = Some d\<rparr>"

definition triple_rows :: "(string \<times> jsonval) list list" where
  "triple_rows = [[(''item'', q42)], [(''item'', quoted_triple)]]"

definition optional_rows :: "(string \<times> jsonval) list list" where
  "optional_rows = [[(''item'', q42)], []]"

text \<open>A response that is neither JSON nor a login page.\<close>

definition unavailable :: response where
  "unavailable = \<lparr>content = ''Service Unavailable'', json = None\<rparr>"

text \<open>
  A URI term outside the entity URI prefix of Wikidata, and three rows of which two
  bind \<open>item\<close> to the same entity and the third to that URI.
\<close>

definition elsewhere :: jsonval where
  "elsewhere = JObj [(''type'', JStr ''uri''), (''value'', JStr ''http://example.org/Q42'')]"

definition three_rows :: "(string \<times> jsonval) list list" where
  "three_rows =
     [[(''item'', q42), (''itemLabel'', adams)], [(''item'', q42)],
      [(''itemLabel'', adams), (''item'', elsewhere)]]"

section \<open>Properties of the value model\<close>

lemma startswith_prefix: "startswith s p = prefix p s"
  by (auto simp: startswith_def prefix_def) (metis append_take_drop_id)

lemma str_in_sublist: "str_in p s = sublist p s"
  by (induction s) (auto simp: startswith_prefix sublist_Cons_right)

text \<open>
  C7. \<open>getID\<close> of a URI node whose value is a string: the identifier is the rest of
  the value after the entity-URI prefix exactly when the value is the prefix followed
  by that rest, character for character; the result is \<open>None\<close>, not an exception,
  exactly when the value does not start with the prefix. The examples of the
  specification, and one each for letter case and for a missing trailing slash.
\<close>

theorem getID_strips_prefix:
  "(getID (URI (JStr v) p) = Inr (Some i) \<longleftrightarrow> v = p @ i)
   \<and> (getID (URI (JStr v) p) = Inr None \<longleftrightarrow> \<not> prefix p v)
   \<and> (\<forall>e. getID (URI (JStr v) p) \<noteq> Inl e)
   \<and> getID (URI (JStr ''http://example.org/Q1'') ''http://example.org/'') = Inr (Some ''Q1'')
   \<and> getID (URI (JStr ''http://other.org/Q1'') ''http://example.org/'') = Inr None
   \<and> getID (URI (JStr ''HTTP://EXAMPLE.ORG/Q1'') ''http://example.org/'') = Inr None
   \<and> getID (URI (JStr ''http://example.org'') ''http://example.org/'') = Inr None"
proof -
  have "getID (URI (JStr v) p) = Inr (Some i) \<longleftrightarrow> v = p @ i"
    by (auto simp: removeprefix_def startswith_prefix prefix_def)
  moreover have "getID (URI (JStr v) p) = Inr None \<longleftrightarrow> \<not> prefix p v"
    by (simp add: startswith_prefix)
  moreover have "\<forall>e. getID (URI (JStr v) p) \<noteq> Inl e"
    by simp
  moreover have
    "getID (URI (JStr ''http://example.org/Q1'') ''http://example.org/'') = Inr (Some ''Q1'')"
    by (simp add: removeprefix_def startswith_def)
  moreover have
    "getID (URI (JStr ''http://other.org/Q1'') ''http://example.org/'') = Inr None"
    by (simp add: startswith_def)
  moreover have
    "getID (URI (JStr ''HTTP://EXAMPLE.ORG/Q1'') ''http://example.org/'') = Inr None"
    by (simp add: startswith_def)
  moreover have
    "getID (URI (JStr ''http://example.org'') ''http://example.org/'') = Inr None"
    by (simp add: startswith_def)
  ultimately show ?thesis by blast
qed

theorem getID_strips_prefix_witness:
  "getID (URI (JStr ''http://www.wikidata.org/entity/Q42'') ''http://www.wikidata.org/entity/'')
     = Inr (Some ''Q42'')"
  using getID_strips_prefix
    [of "''http://www.wikidata.org/entity/Q42''" "''http://www.wikidata.org/entity/''" "''Q42''"]
  by simp

section \<open>Properties of the query executor\<close>

lemma fetch_loop_never:
  assumes inv: "\<And>w. stuck w \<Longrightarrow> \<exists>w1 w2. fetch url hdrs w = (Timeout, w1) \<and> wait w1 = (None, w2) \<and> stuck w2"
  shows "stuck w \<Longrightarrow> fetch_loop fetch wait url hdrs w = None"
proof -
  have "f = fetch \<and> wt = wait \<and> u = url \<and> h = hdrs \<longrightarrow> \<not> stuck v"
    if "fetch_loop f wt u h v = Some y" for f wt u h v y
  proof (rule fetch_loop.raw_induct
      [where P = "\<lambda>f wt u h v y. f = fetch \<and> wt = wait \<and> u = url \<and> h = hdrs \<longrightarrow> \<not> stuck v",
       OF _ that])
    fix loop f wt u h v y
    assume IH: "\<And>f wt u h v y. loop f wt u h v = Some y \<Longrightarrow>
        f = fetch \<and> wt = wait \<and> u = url \<and> h = hdrs \<longrightarrow> \<not> stuck v"
      and body: "(case f u h v of
          (Response r, w1) \<Rightarrow> Some (Inr r, w1)
        | (Timeout, w1) \<Rightarrow>
            (case wt w1 of (None, w2) \<Rightarrow> loop f wt u h w2 | (Some e, w2) \<Rightarrow> Some (Inl e, w2))
        | (Failure x, w1) \<Rightarrow> Some (Inl (Raised x), w1)) = Some y"
    show "f = fetch \<and> wt = wait \<and> u = url \<and> h = hdrs \<longrightarrow> \<not> stuck v"
    proof (intro impI notI, elim conjE)
      assume eqs: "f = fetch" "wt = wait" "u = url" "h = hdrs" and "stuck v"
      from inv[OF \<open>stuck v\<close>] obtain w1 w2 where
        st: "fetch url hdrs v = (Timeout, w1)" "wait w1 = (None, w2)" "stuck w2" by blast
      from body st eqs have "loop fetch wait url hdrs w2 = Some y" by simp
      from IH[OF this] st(3) show False by simp
    qed
  qed
  then show "stuck w \<Longrightarrow> fetch_loop fetch wait url hdrs w = None"
    by (cases "fetch_loop fetch wait url hdrs w") auto
qed

lemma fetch_loop_log:
  assumes "fetch_loop (recording fetch) (unrecorded wait) url hdrs (w, log) = Some (res, (w', log'))"
  shows "\<exists>n. log' = log @ replicate (Suc n) (url, hdrs)"
proof -
  have "\<forall>w log. f = recording fetch \<and> wt = unrecorded wait \<and> v = (w, log)
          \<longrightarrow> (\<exists>n. snd (snd y) = log @ replicate (Suc n) (u, h))"
    if "fetch_loop f wt u h v = Some y" for f wt u h v y
  proof (rule fetch_loop.raw_induct
      [where P = "\<lambda>f wt u h v y. \<forall>w log. f = recording fetch \<and> wt = unrecorded wait \<and> v = (w, log)
          \<longrightarrow> (\<exists>n. snd (snd y) = log @ replicate (Suc n) (u, h))",
       OF _ that])
    fix loop f wt u h v y
    assume IH: "\<And>f wt u h v y. loop f wt u h v = Some y \<Longrightarrow>
        \<forall>w log. f = recording fetch \<and> wt = unrecorded wait \<and> v = (w, log)
          \<longrightarrow> (\<exists>n. snd (snd y) = log @ replicate (Suc n) (u, h))"
      and body: "(case f u h v of
          (Response r, w1) \<Rightarrow> Some (Inr r, w1)
        | (Timeout, w1) \<Rightarrow>
            (case wt w1 of (None, w2) \<Rightarrow> loop f wt u h w2 | (Some e, w2) \<Rightarrow> Some (Inl e, w2))
        | (Failure x, w1) \<Rightarrow> Some (Inl (Raised x), w1)) = Some y"
    show "\<forall>w log. f = recording fetch \<and> wt = unrecorded wait \<and> v = (w, log)
          \<longrightarrow> (\<exists>n. snd (snd y) = log @ replicate (Suc n) (u, h))"
    proof (intro allI impI, elim conjE)
      fix w log
      assume eqs: "f = recording fetch" "wt = unrecorded wait" "v = (w, log)"
      obtain r w1 where fw: "fetch u h w = (r, w1)" by (cases "fetch u h w")
      then have rec: "f u h v = (r, (w1, log @ [(u, h)]))"
        by (simp add: eqs recording_def)
      show "\<exists>n. snd (snd y) = log @ replicate (Suc n) (u, h)"
      proof (cases r)
        case (Response x)
        with body rec have "snd (snd y) = log @ replicate (Suc 0) (u, h)" by auto
        then show ?thesis by blast
      next
        case (Failure x)
        with body rec have "snd (snd y) = log @ replicate (Suc 0) (u, h)" by auto
        then show ?thesis by blast
      next
        case Timeout
        obtain e w2 where ww: "wait w1 = (e, w2)" by (cases "wait w1")
        then have unr: "wt (w1, log @ [(u, h)]) = (e, (w2, log @ [(u, h)]))"
          by (simp add: eqs unrecorded_def)
        show ?thesis
        proof (cases e)
          case (Some x)
          with body rec unr Timeout have "snd (snd y) = log @ replicate (Suc 0) (u, h)" by auto
          then show ?thesis by blast
        next
          case None
          with body rec unr Timeout have "loop f wt u h (w2, log @ [(u, h)]) = Some y" by simp
          from IH[OF this] eqs obtain n where
            "snd (snd y) = (log @ [(u, h)]) @ replicate (Suc n) (u, h)" by blast
          then have "snd (snd y) = log @ replicate (Suc (Suc n)) (u, h)" by simp
          then show ?thesis by blast
        qed
      qed
    qed
  qed
  from this[OF assms] show ?thesis by simp
qed


lemma fetch_loop_retry:
  "fetch url hdrs w = (Timeout, w1) \<Longrightarrow> wait w1 = (None, w2) \<Longrightarrow>
   fetch_loop fetch wait url hdrs w = fetch_loop fetch wait url hdrs w2"
  by (subst fetch_loop.simps) simp

lemma fetch_loop_wait_raises:
  "fetch url hdrs w = (Timeout, w1) \<Longrightarrow> wait w1 = (Some e, w2) \<Longrightarrow>
   fetch_loop fetch wait url hdrs w = Some (Inl e, w2)"
  by (subst fetch_loop.simps) simp

lemma fetch_loop_failure:
  "fetch url hdrs w = (Failure x, w1) \<Longrightarrow>
   fetch_loop fetch wait url hdrs w = Some (Inl (Raised x), w1)"
  by (subst fetch_loop.simps) simp

lemma fetch_loop_response:
  "fetch url hdrs w = (Response r, w1) \<Longrightarrow>
   fetch_loop fetch wait url hdrs w = Some (Inr r, w1)"
  by (subst fetch_loop.simps) simp


text \<open>
  C4. The fetch loop of \<open>query\<close>, for the request URL and headers of the call. A
  \<open>Timeout\<close> of the transport followed by a wait that returns leaves the call where the
  same call starts in the world after the wait; a wait that raises ends the call with
  that exception; any other exception of the transport ends the call with it. The
  loop has no budget of its own: if from the starting world on every fetch times
  out and every wait returns, the call never returns. Every request that a call
  sends, up to its return, has the same URL and the same headers.
\<close>

theorem query_retries_on_timeout:
  assumes url: "url = endpoint self @ ''?query='' @ quote q"
    and hdrs: "hdrs = (case headers of None \<Rightarrow> DEFAULT_HEADERS | Some h \<Rightarrow> h)"
  shows
    "(fetch url hdrs w = (Timeout, w1) \<and> wait w1 = (None, w2) \<longrightarrow>
        query fetch wait self q headers w = query fetch wait self q headers w2)
     \<and> (fetch url hdrs w = (Timeout, w1) \<and> wait w1 = (Some e, w2) \<longrightarrow>
        query fetch wait self q headers w = Some (Inl e, self\<lparr>last_response := None\<rparr>, w2))
     \<and> (fetch url hdrs w = (Failure x, w1) \<longrightarrow>
        query fetch wait self q headers w
          = Some (Inl (Raised x), self\<lparr>last_response := None\<rparr>, w1))
     \<and> ((\<forall>v. stuck v \<longrightarrow>
            (\<exists>v1 v2. fetch url hdrs v = (Timeout, v1) \<and> wait v1 = (None, v2) \<and> stuck v2))
          \<and> stuck w \<longrightarrow>
        query fetch wait self q headers w = None)
     \<and> (query (recording fetch) (unrecorded wait) self q headers (w, [])
           = Some (res, self', (w', log)) \<longrightarrow>
        (\<exists>n. log = replicate (Suc n) (url, hdrs)))"
proof (intro conjI impI)
  assume "fetch url hdrs w = (Timeout, w1) \<and> wait w1 = (None, w2)"
  then have "fetch_loop fetch wait url hdrs w = fetch_loop fetch wait url hdrs w2"
    by (simp add: fetch_loop_retry)
  then show "query fetch wait self q headers w = query fetch wait self q headers w2"
    by (simp add: query_def url hdrs)
next
  assume "fetch url hdrs w = (Timeout, w1) \<and> wait w1 = (Some e, w2)"
  then have "fetch_loop fetch wait url hdrs w = Some (Inl e, w2)"
    by (simp add: fetch_loop_wait_raises)
  then show "query fetch wait self q headers w = Some (Inl e, self\<lparr>last_response := None\<rparr>, w2)"
    by (simp add: query_def url hdrs)
next
  assume "fetch url hdrs w = (Failure x, w1)"
  then have "fetch_loop fetch wait url hdrs w = Some (Inl (Raised x), w1)"
    by (simp add: fetch_loop_failure)
  then show "query fetch wait self q headers w
      = Some (Inl (Raised x), self\<lparr>last_response := None\<rparr>, w1)"
    by (simp add: query_def url hdrs)
next
  assume a: "(\<forall>v. stuck v \<longrightarrow>
            (\<exists>v1 v2. fetch url hdrs v = (Timeout, v1) \<and> wait v1 = (None, v2) \<and> stuck v2))
          \<and> stuck w"
  then have "fetch_loop fetch wait url hdrs w = None"
    using fetch_loop_never [of stuck fetch url hdrs wait w] by blast
  then show "query fetch wait self q headers w = None"
    by (simp add: query_def url hdrs)
next
  assume q: "query (recording fetch) (unrecorded wait) self q headers (w, [])
           = Some (res, self', (w', log))"
  then obtain r where "fetch_loop (recording fetch) (unrecorded wait) url hdrs (w, [])
      = Some (r, (w', log))"
    by (auto simp: query_def url hdrs Let_def split: option.splits sum.splits)
  from fetch_loop_log [OF this] show "\<exists>n. log = replicate (Suc n) (url, hdrs)" by simp
qed


lemma quote_ask: "quote ''ASK {}'' = ''ASK%20%7B%7D''"
  by (simp add: quote_def quote_char_def quote_safe_def hex_digit_def)


lemma login_wall_other_host:
  "query (answering login_page) patient wikidata ''ASK {}'' None 0
   = Some (Inr JNull, wikidata\<lparr>last_response := Some login_page\<rparr>, 1)"
  by (simp add: query_def fetch_loop_response answering_def decode_response_def
      login_page_def wikidata_def startswith_def cont_byte_def quote_ask)


theorem query_retries_on_timeout_witness:
  "query (timing_out 1 login_page) patient wikidata ''ASK {}'' None 0
     = query (timing_out 1 login_page) patient wikidata ''ASK {}'' None 1
   \<and> query (timing_out 1 login_page) exhausted wikidata ''ASK {}'' None 0
     = Some (Inl (Raised ''TimeoutError''), wikidata\<lparr>last_response := None\<rparr>, 1)
   \<and> query (failing ''ConnectionError'') patient wikidata ''ASK {}'' None 0
     = Some (Inl (Raised ''ConnectionError''), wikidata\<lparr>last_response := None\<rparr>, 1)
   \<and> query (\<lambda>url hdrs n. (Timeout, Suc n)) patient wikidata ''ASK {}'' None 0 = None
   \<and> (\<exists>n. replicate 2 (endpoint wikidata @ ''?query='' @ quote ''ASK {}'', DEFAULT_HEADERS)
          = replicate (Suc n) (endpoint wikidata @ ''?query='' @ quote ''ASK {}'', DEFAULT_HEADERS))"
proof -
  let ?url = "endpoint wikidata @ ''?query='' @ quote ''ASK {}''"
  have 1: "query (timing_out 1 login_page) patient wikidata ''ASK {}'' None 0
     = query (timing_out 1 login_page) patient wikidata ''ASK {}'' None 1"
    using query_retries_on_timeout [OF refl refl, where self = wikidata and q = "''ASK {}''"
        and headers = None and fetch = "timing_out 1 login_page" and wait = patient
        and w = 0 and ?w1.0 = 1 and ?w2.0 = 1]
    by (simp add: timing_out_def patient_def)
  have 2: "query (timing_out 1 login_page) exhausted wikidata ''ASK {}'' None 0
     = Some (Inl (Raised ''TimeoutError''), wikidata\<lparr>last_response := None\<rparr>, 1)"
    using query_retries_on_timeout [OF refl refl, where self = wikidata and q = "''ASK {}''"
        and headers = None and fetch = "timing_out 1 login_page" and wait = exhausted
        and w = 0 and ?w1.0 = 1 and ?w2.0 = 1 and e = "Raised ''TimeoutError''"]
    by (simp add: timing_out_def exhausted_def)
  have 3: "query (failing ''ConnectionError'') patient wikidata ''ASK {}'' None 0
     = Some (Inl (Raised ''ConnectionError''), wikidata\<lparr>last_response := None\<rparr>, 1)"
    using query_retries_on_timeout [OF refl refl, where self = wikidata and q = "''ASK {}''"
        and headers = None and fetch = "failing ''ConnectionError''" and wait = patient
        and w = 0 and ?w1.0 = 1 and x = "''ConnectionError''"]
    by (simp add: failing_def)
  have 4: "query (\<lambda>url hdrs n. (Timeout, Suc n)) patient wikidata ''ASK {}'' None 0 = None"
    using query_retries_on_timeout [OF refl refl, where self = wikidata and q = "''ASK {}''"
        and headers = None and fetch = "\<lambda>url hdrs n. (Timeout, Suc n)" and wait = patient
        and w = 0 and stuck = "\<lambda>n. True"]
    by (simp add: patient_def)
  have run: "query (recording (timing_out 1 login_page)) (unrecorded patient) wikidata ''ASK {}'' None (0, [])
      = Some (Inr JNull, wikidata\<lparr>last_response := Some login_page\<rparr>,
          (2, replicate 2 (?url, DEFAULT_HEADERS)))"
    by (simp add: query_def fetch_loop.simps recording_def unrecorded_def timing_out_def
        patient_def decode_response_def login_page_def wikidata_def startswith_def cont_byte_def
        quote_ask numeral_2_eq_2 Let_def)
  have 5: "\<exists>n. replicate 2 (?url, DEFAULT_HEADERS) = replicate (Suc n) (?url, DEFAULT_HEADERS)"
    using query_retries_on_timeout [OF refl refl, where self = wikidata and q = "''ASK {}''"
        and headers = None and fetch = "timing_out 1 login_page" and wait = patient
        and w = 0 and res = "Inr JNull" and self' = "wikidata\<lparr>last_response := Some login_page\<rparr>"
        and w' = 2 and log = "replicate 2 (?url, DEFAULT_HEADERS)"] run
    by simp
  from 1 2 3 4 5 show ?thesis by blast
qed

lemma decode_failure_classified:
  assumes "json r = None" and "utf8_ok (map of_char (content r))"
  shows "decode_response url r =
     (if prefix ''<!DOCTYPE html>'' (content r)
         \<and> sublist ''https://commons-query.wikimedia.org'' url
         \<and> (sublist ''Special:UserLogin'' (content r) \<or> sublist ''Special:OAuth'' (content r))
      then Inl NoUsernameError else Inr JNull)"
  using assms by (simp add: decode_response_def startswith_prefix str_in_sublist Let_def)

text \<open>
  C1. A response whose body is the single byte \<open>0xFF\<close> and whose \<open>json()\<close> raises
  \<open>JSONDecodeError\<close>: the body is not a login page, yet \<open>query\<close> does not return
  \<open>None\<close>. \<open>content.decode()\<close> raises \<open>UnicodeDecodeError\<close>, which leaves \<open>query\<close>
  with the last-response handle set.
\<close>

theorem query_undecodable_content:
  "query (answering \<lparr>content = [CHR 0xFF], json = None\<rparr>) patient wikidata ''ASK {}'' None 0
   = Some (Inl UnicodeDecodeError,
       wikidata\<lparr>last_response := Some \<lparr>content = [CHR 0xFF], json = None\<rparr>\<rparr>, 1)"
  by (simp add: query_def fetch_loop_response answering_def decode_response_def)

section \<open>Properties of the operations built on \<open>query\<close>\<close>

lemma and_then_Inr:
  "and_then r f = Inr y \<longleftrightarrow> (\<exists>x. r = Inr x \<and> f x = Inr y)"
  by (cases r) (simp_all add: and_then_def)

lemma and_then_Inl [simp]: "and_then (Inl e) f = Inl e"
  by (simp add: and_then_def)

lemma and_then_Inr_left [simp]: "and_then (Inr x) f = f x"
  by (simp add: and_then_def)

lemma query_default_headers:
  "query fetch wait self q (Some (case headers of None \<Rightarrow> DEFAULT_HEADERS | Some h \<Rightarrow> h)) w
     = query fetch wait self q headers w"
  by (cases headers) (simp_all add: query_def)

lemma select_unfold:
  "select fetch wait self q full_data headers w =
     (case query fetch wait self q headers w of
        None \<Rightarrow> None
      | Some (Inl e, self1, w1) \<Rightarrow> Some (Inl e, self1, w1)
      | Some (Inr data, self1, w1) \<Rightarrow>
          Some (select_data (entity_url self1) full_data data, self1, w1))"
  by (simp add: select_def query_default_headers)

lemma ask_unfold:
  "ask fetch wait self q headers w =
     (case query fetch wait self q headers w of
        None \<Rightarrow> None
      | Some (Inl e, self1, w1) \<Rightarrow> Some (Inl e, self1, w1)
      | Some (Inr data, self1, w1) \<Rightarrow> Some (py_getitem data (JStr ''boolean''), self1, w1))"
  by (simp add: ask_def query_default_headers)

lemma query_frame:
  "query fetch wait self q headers w = Some (res, self', w') \<Longrightarrow>
   endpoint self' = endpoint self \<and> entity_url self' = entity_url self
   \<and> max_retries self' = max_retries self \<and> retry_wait self' = retry_wait self"
  by (auto simp: query_def Let_def split: option.splits sum.splits prod.splits)

lemma select_frame:
  "select fetch wait self q full_data headers w = Some (res, self', w') \<Longrightarrow>
   endpoint self' = endpoint self \<and> entity_url self' = entity_url self"
  by (auto simp: select_unfold split: option.splits sum.splits prod.splits dest: query_frame)

lemma ask_frame:
  "ask fetch wait self q headers w = Some (res, self', w') \<Longrightarrow>
   endpoint self' = endpoint self \<and> entity_url self' = entity_url self"
  by (auto simp: ask_unfold split: option.splits sum.splits prod.splits dest: query_frame)

lemma get_items_frame:
  "get_items fetch wait self q item_name result_type w = Some (res, self', w') \<Longrightarrow>
   endpoint self' = endpoint self \<and> entity_url self' = entity_url self"
  by (auto simp: get_items_def split: option.splits sum.splits prod.splits list.splits
      dest: select_frame)

lemma query_answering:
  "query (answering r) patient self q headers n =
     Some (decode_response (endpoint self @ ''?query='' @ quote q) r,
           self\<lparr>last_response := Some r\<rparr>, Suc n)"
  by (simp add: query_def fetch_loop_response answering_def)

text \<open>
  C5. \<open>ask\<close> runs \<open>query\<close> and returns \<open>data['boolean']\<close> as it is: when the decoded
  document is an object, the result is the value of its \<open>boolean\<close> field, and a
  \<open>KeyError\<close> that nothing handles when the field is absent, for every query text,
  headers, transport and executor.
\<close>

theorem ask_returns_boolean_field:
  "query fetch wait self q headers w = Some (Inr (JObj kvs), self', w') \<longrightarrow>
     ask fetch wait self q headers w =
       Some ((case map_of kvs ''boolean'' of Some v \<Rightarrow> Inr v | None \<Rightarrow> Inl KeyError), self', w')"
  by (simp add: ask_unfold)

theorem ask_returns_boolean_field_witness:
  "ask (answering ask_true) patient wikidata ''ASK {}'' None 0
     = Some (Inr (JBool True), wikidata\<lparr>last_response := Some ask_true\<rparr>, 1)
   \<and> ask (answering empty_object) patient wikidata ''ASK {}'' None 0
     = Some (Inl KeyError, wikidata\<lparr>last_response := Some empty_object\<rparr>, 1)"
  using
    ask_returns_boolean_field [of "answering ask_true" patient wikidata "''ASK {}''" None 0
      "[(''boolean'', JBool True)]" "wikidata\<lparr>last_response := Some ask_true\<rparr>" 1]
    ask_returns_boolean_field [of "answering empty_object" patient wikidata "''ASK {}''" None 0
      "[]" "wikidata\<lparr>last_response := Some empty_object\<rparr>" 1]
  by (simp add: query_answering decode_response_def ask_true_def empty_object_def)

section \<open>Properties of construction\<close>

lemma from_site_Inr:
  "from_site r = Inr (e, u) \<longleftrightarrow>
     sparql_endpoint r = Inr (Some e) \<and> e \<noteq> [] \<and> concept_base_uri r = Inr u"
  by (auto simp: from_site_def read_site_def and_then_def
      split: sum.splits option.splits py_error.splits if_splits)

lemma from_args_Inr:
  "from_args ep eu = Inr (e, u) \<longleftrightarrow> e = ep \<and> eu = Some u \<and> u \<noteq> []"
  by (auto simp: from_args_def split: option.splits if_splits)

lemma from_site_no_endpoint:
  "sparql_endpoint r = Inr None \<or> sparql_endpoint r = Inr (Some []) \<Longrightarrow>
   \<exists>x. from_site r = Inl x"
  by (cases "from_site r") (auto simp: from_site_Inr)

lemma from_site_no_endpoint_Error:
  "sparql_endpoint r = Inr None \<or> sparql_endpoint r = Inr (Some []) \<Longrightarrow>
   concept_base_uri r = Inr u \<Longrightarrow>
   from_site r = Inl (Error (''The site '' @ site_str r @ '' does not provide a sparql endpoint.''))"
  by (auto simp: from_site_def read_site_def and_then_def)

lemma init_repo:
  "init S ep eu (Some r) mr rw =
     and_then (from_site r) (\<lambda>(e, u).
       Inr \<lparr>endpoint = e, entity_url = u, last_response = None,
            max_retries = mr, retry_wait = rw\<rparr>)"
  by (simp add: init_def)

lemma init_default:
  "ep = None \<or> ep = Some [] \<Longrightarrow>
   init S ep eu None mr rw =
     and_then (and_then S from_site) (\<lambda>(e, u).
       Inr \<lparr>endpoint = e, entity_url = u, last_response = None,
            max_retries = mr, retry_wait = rw\<rparr>)"
  by (auto simp: init_def)

lemma init_args:
  "ep = Some e \<Longrightarrow> e \<noteq> [] \<Longrightarrow>
   init S ep eu None mr rw =
     and_then (from_args e eu) (\<lambda>(e, u).
       Inr \<lparr>endpoint = e, entity_url = u, last_response = None,
            max_retries = mr, retry_wait = rw\<rparr>)"
  by (simp add: init_def)

lemma init_repo_Inr:
  "init S ep eu (Some r) mr rw = Inr s \<longleftrightarrow>
     sparql_endpoint r = Inr (Some (endpoint s)) \<and> endpoint s \<noteq> []
     \<and> concept_base_uri r = Inr (entity_url s)
     \<and> last_response s = None \<and> max_retries s = mr \<and> retry_wait s = rw"
  by (cases s) (auto simp: init_repo and_then_Inr from_site_Inr)

lemma init_default_Inr:
  "ep = None \<or> ep = Some [] \<Longrightarrow>
   init S ep eu None mr rw = Inr s \<longleftrightarrow>
     (\<exists>r. S = Inr r \<and> sparql_endpoint r = Inr (Some (endpoint s)) \<and> endpoint s \<noteq> []
        \<and> concept_base_uri r = Inr (entity_url s))
     \<and> last_response s = None \<and> max_retries s = mr \<and> retry_wait s = rw"
  by (cases s) (auto simp: init_default and_then_Inr from_site_Inr)

lemma init_args_Inr:
  "ep = Some e \<Longrightarrow> e \<noteq> [] \<Longrightarrow>
   init S ep eu None mr rw = Inr s \<longleftrightarrow>
     endpoint s = e \<and> eu = Some (entity_url s) \<and> entity_url s \<noteq> []
     \<and> last_response s = None \<and> max_retries s = mr \<and> retry_wait s = rw"
  by (cases s) (auto simp: init_args and_then_Inr from_args_Inr)

text \<open>
  C9, as the constructor is written. A site with an endpoint and an empty entity URI
  prefix is accepted, also when an endpoint is passed without an entity URL beside it:
  the repo overrides the arguments and its \<open>concept_base_uri\<close> is not checked.
\<close>

theorem init_accepts_empty_entity_url:
  "init (Inl (Raised ''UnknownSiteError'')) None None (Some bare_site) None None
     = Inr \<lparr>endpoint = ''https://query.example.org/sparql'', entity_url = '''',
            last_response = None, max_retries = None, retry_wait = None\<rparr>
   \<and> init (Inl (Raised ''UnknownSiteError'')) (Some ''https://other.example.org/sparql'') None
        (Some bare_site) None None
     = Inr \<lparr>endpoint = ''https://query.example.org/sparql'', entity_url = '''',
            last_response = None, max_retries = None, retry_wait = None\<rparr>"
  by (simp add: init_def from_site_def read_site_def and_then_def bare_site_def)

text \<open>
  C9, amended. A constructed executor has a non-empty endpoint and an empty
  last-response handle. Without a repo and with a non-empty endpoint, both fields are
  the arguments and the entity URL is non-empty. With a repo, or with the default site
  when neither a repo nor a non-empty endpoint is given, both fields are what the site
  provides. Construction fails when the default site cannot be resolved, when the
  site's endpoint is absent or empty, and when a non-empty endpoint is given with no
  repo and no entity URL. \<open>query\<close>, \<open>select\<close>, \<open>ask\<close> and \<open>get_items\<close> leave both
  fields as they are.
\<close>

theorem init_checks:
  "(init S ep eu repo mr rw = Inr s \<longrightarrow>
      endpoint s \<noteq> [] \<and> last_response s = None \<and> max_retries s = mr \<and> retry_wait s = rw)
   \<and> (init S ep eu None mr rw = Inr s \<and> ep \<noteq> None \<and> ep \<noteq> Some [] \<longrightarrow>
      ep = Some (endpoint s) \<and> eu = Some (entity_url s) \<and> entity_url s \<noteq> [])
   \<and> (init S ep eu (Some r) mr rw = Inr s \<longrightarrow>
      sparql_endpoint r = Inr (Some (endpoint s)) \<and> concept_base_uri r = Inr (entity_url s))
   \<and> (init (Inr r) ep eu None mr rw = Inr s \<and> (ep = None \<or> ep = Some []) \<longrightarrow>
      sparql_endpoint r = Inr (Some (endpoint s)) \<and> concept_base_uri r = Inr (entity_url s))
   \<and> (ep = None \<or> ep = Some [] \<longrightarrow> init (Inl e) ep eu None mr rw = Inl e)
   \<and> (sparql_endpoint r = Inr None \<or> sparql_endpoint r = Inr (Some []) \<longrightarrow>
        (\<exists>x. init S ep eu (Some r) mr rw = Inl x)
        \<and> (ep = None \<or> ep = Some [] \<longrightarrow> (\<exists>x. init (Inr r) ep eu None mr rw = Inl x)))
   \<and> (ep \<noteq> None \<and> ep \<noteq> Some [] \<and> (eu = None \<or> eu = Some []) \<longrightarrow>
        init S ep eu None mr rw
          = Inl (Error ''If initialised with an endpoint the entity_url must be provided.''))
   \<and> (query fetch wait s q headers w = Some (res, s', w') \<longrightarrow>
        endpoint s' = endpoint s \<and> entity_url s' = entity_url s)
   \<and> (select fetch wait s q full_data headers w = Some (rows, s', w') \<longrightarrow>
        endpoint s' = endpoint s \<and> entity_url s' = entity_url s)
   \<and> (ask fetch wait s q headers w = Some (res, s', w') \<longrightarrow>
        endpoint s' = endpoint s \<and> entity_url s' = entity_url s)
   \<and> (get_items fetch wait s q item_name result_type w = Some (items, s', w') \<longrightarrow>
        endpoint s' = endpoint s \<and> entity_url s' = entity_url s)"
proof -
  have 1: "init S ep eu repo mr rw = Inr s \<longrightarrow>
      endpoint s \<noteq> [] \<and> last_response s = None \<and> max_retries s = mr \<and> retry_wait s = rw"
  proof (cases repo)
    case (Some r)
    then show ?thesis by (simp add: init_repo_Inr)
  next
    case None
    show ?thesis
    proof (cases "ep = None \<or> ep = Some []")
      case True
      with None show ?thesis by (auto simp: init_default_Inr)
    next
      case False
      then obtain e where "ep = Some e" "e \<noteq> []" by (cases ep) auto
      with None show ?thesis by (auto simp: init_args_Inr)
    qed
  qed
  have 2: "init S ep eu None mr rw = Inr s \<and> ep \<noteq> None \<and> ep \<noteq> Some [] \<longrightarrow>
      ep = Some (endpoint s) \<and> eu = Some (entity_url s) \<and> entity_url s \<noteq> []"
    by (cases ep) (auto simp: init_args_Inr)
  have 3: "init S ep eu (Some r) mr rw = Inr s \<longrightarrow>
      sparql_endpoint r = Inr (Some (endpoint s)) \<and> concept_base_uri r = Inr (entity_url s)"
    by (simp add: init_repo_Inr)
  have 4: "init (Inr r) ep eu None mr rw = Inr s \<and> (ep = None \<or> ep = Some []) \<longrightarrow>
      sparql_endpoint r = Inr (Some (endpoint s)) \<and> concept_base_uri r = Inr (entity_url s)"
    by (auto simp: init_default_Inr)
  have 5: "ep = None \<or> ep = Some [] \<longrightarrow> init (Inl e) ep eu None mr rw = Inl e"
    by (auto simp: init_default)
  have 6: "sparql_endpoint r = Inr None \<or> sparql_endpoint r = Inr (Some []) \<longrightarrow>
        (\<exists>x. init S ep eu (Some r) mr rw = Inl x)
        \<and> (ep = None \<or> ep = Some [] \<longrightarrow> (\<exists>x. init (Inr r) ep eu None mr rw = Inl x))"
  proof (intro impI conjI)
    assume a: "sparql_endpoint r = Inr None \<or> sparql_endpoint r = Inr (Some [])"
    from from_site_no_endpoint [OF a] obtain x where x: "from_site r = Inl x" ..
    then show "\<exists>x. init S ep eu (Some r) mr rw = Inl x" by (simp add: init_repo)
    assume "ep = None \<or> ep = Some []"
    with x show "\<exists>x. init (Inr r) ep eu None mr rw = Inl x" by (simp add: init_default)
  qed
  have 7: "ep \<noteq> None \<and> ep \<noteq> Some [] \<and> (eu = None \<or> eu = Some []) \<longrightarrow>
        init S ep eu None mr rw
          = Inl (Error ''If initialised with an endpoint the entity_url must be provided.'')"
    by (cases ep) (auto simp: init_args from_args_def)
  note 8 = query_frame [of fetch wait s q headers w res s' w']
    select_frame [of fetch wait s q full_data headers w rows s' w']
    ask_frame [of fetch wait s q headers w res s' w']
    get_items_frame [of fetch wait s q item_name result_type w items s' w']
  from 1 2 3 4 5 6 7 8 show ?thesis by blast
qed

theorem init_checks_witness:
  "init (Inr wikidata_site) None None None None None = Inr wikidata
   \<and> init (Inl (Raised ''UnknownSiteError'')) (Some ''https://query.wikidata.org/sparql'')
        (Some ''http://www.wikidata.org/entity/'') None None None = Inr wikidata
   \<and> init (Inl (Raised ''UnknownSiteError'')) None None None None None
        = Inl (Raised ''UnknownSiteError'')
   \<and> (\<exists>x. init (Inr wikidata_site) None None (Some no_sparql_site) None None = Inl x)
   \<and> init (Inr wikidata_site) (Some ''https://query.wikidata.org/sparql'') None None None None
        = Inl (Error ''If initialised with an endpoint the entity_url must be provided.'')
   \<and> endpoint (wikidata\<lparr>last_response := Some ask_true\<rparr>) = endpoint wikidata"
proof -
  have a: "init (Inr wikidata_site) None None None None None = Inr wikidata"
    by (simp add: init_def from_site_def read_site_def wikidata_site_def wikidata_def)
  have b: "init (Inl (Raised ''UnknownSiteError'')) (Some ''https://query.wikidata.org/sparql'')
        (Some ''http://www.wikidata.org/entity/'') None None None = Inr wikidata"
    by (simp add: init_def from_args_def wikidata_def)
  have c: "init (Inl (Raised ''UnknownSiteError'')) None None None None None
        = Inl (Raised ''UnknownSiteError'')"
    using init_checks [where ep = None and e = "Raised ''UnknownSiteError''" and eu = None
        and mr = None and rw = None,
        THEN conjunct2, THEN conjunct2, THEN conjunct2, THEN conjunct2,
        THEN conjunct1]
    by simp
  have d: "\<exists>x. init (Inr wikidata_site) None None (Some no_sparql_site) None None = Inl x"
    using init_checks [where r = no_sparql_site and S = "Inr wikidata_site"
        and ep = None and eu = None and mr = None and rw = None,
        THEN conjunct2, THEN conjunct2, THEN conjunct2, THEN conjunct2,
        THEN conjunct2, THEN conjunct1]
    by (simp add: no_sparql_site_def)
  have e: "init (Inr wikidata_site) (Some ''https://query.wikidata.org/sparql'') None None None None
        = Inl (Error ''If initialised with an endpoint the entity_url must be provided.'')"
    using init_checks [where ep = "Some ''https://query.wikidata.org/sparql''" and eu = None
        and S = "Inr wikidata_site" and mr = None and rw = None,
        THEN conjunct2, THEN conjunct2, THEN conjunct2, THEN conjunct2,
        THEN conjunct2, THEN conjunct2, THEN conjunct1]
    by simp
  have f: "endpoint (wikidata\<lparr>last_response := Some ask_true\<rparr>) = endpoint wikidata"
    using init_checks [where s = wikidata and fetch = "answering ask_true" and wait = patient
        and q = "''ASK {}''" and headers = None and w = 0
        and s' = "wikidata\<lparr>last_response := Some ask_true\<rparr>" and w' = 1
        and res = "decode_response (endpoint wikidata @ ''?query='' @ quote ''ASK {}'') ask_true",
        THEN conjunct2, THEN conjunct2, THEN conjunct2, THEN conjunct2,
        THEN conjunct2, THEN conjunct2, THEN conjunct2, THEN conjunct1]
    by (simp add: query_answering)
  from a b c d e f show ?thesis by blast
qed

section \<open>Properties of the result projector\<close>

lemma py_eq_JStr [simp]: "py_eq a (JStr k) = (a = JStr k)"
  by (cases a) auto

lemma in_keys_iff: "v \<in> fst ` set kvs \<longleftrightarrow> map_of kvs v \<noteq> None"
  by (simp add: map_of_eq_None_iff)

lemma py_in_object: "py_in (JStr v) (JObj kvs) = Inr (map_of kvs v \<noteq> None)"
  by (simp add: in_keys_iff)

lemma known_tags:
  "(case map_of VALUE_TYPES tag of None \<Rightarrow> a | Some c \<Rightarrow> b c) =
     (if tag = ''uri'' then b new_URI else if tag = ''literal'' then b new_Literal
      else if tag = ''bnode'' then b new_Bnode else a)"
  by (simp add: VALUE_TYPES_def)

lemma var_value_unbound:
  "map_of kvs v = None \<Longrightarrow> var_value eurl fd (JObj kvs) (JStr v) = Inr (Json JNull)"
  by (simp add: var_value_def in_keys_iff)

lemma var_value_raw:
  "map_of kvs v = Some (JObj d) \<Longrightarrow>
   var_value eurl False (JObj kvs) (JStr v) =
     (case map_of d ''value'' of Some x \<Rightarrow> Inr (Json x) | None \<Rightarrow> Inl KeyError)"
  by (simp add: var_value_def in_keys_iff split: option.splits)

lemma term_tag_Some:
  "term_tag t = Some tag \<longleftrightarrow> (\<exists>d. t = JObj d \<and> map_of d ''type'' = Some (JStr tag))"
  by (auto simp: term_tag_def split: jsonval.splits option.splits)

lemma rdf_node_object:
  "map_of d ''type'' = Some (JStr tag) \<Longrightarrow>
   rdf_node eurl (JObj d) =
     (if tag = ''uri'' then Some (URI (field d ''value'') eurl)
      else if tag = ''literal'' then
        Some (Literal (field d ''value'') (field d ''datatype'') (field d ''xml:lang''))
      else if tag = ''bnode'' then Some (Bnode (field d ''value''))
      else None)"
  by (simp add: rdf_node_def term_tag_def)

lemma new_URI_object: "new_URI (JObj d) eurl = Inr (URI (field d ''value'') eurl)"
  by (simp add: new_URI_def field_def and_then_def)

lemma new_Literal_object:
  "new_Literal (JObj d) eurl =
     Inr (Literal (field d ''value'') (field d ''datatype'') (field d ''xml:lang''))"
  by (simp add: new_Literal_def field_def and_then_def)

lemma new_Bnode_object: "new_Bnode (JObj d) eurl = Inr (Bnode (field d ''value''))"
  by (simp add: new_Bnode_def field_def and_then_def)

lemma var_value_full_object:
  assumes "map_of kvs v = Some (JObj d)" and "map_of d ''type'' = Some (JStr tag)"
  shows "var_value eurl True (JObj kvs) (JStr v) =
     (case rdf_node eurl (JObj d) of
        Some n \<Rightarrow> Inr (Node n)
      | None \<Rightarrow> Inl (ValueError (''Unknown type: '' @ tag)))"
proof -
  have "var_value eurl True (JObj kvs) (JStr v) =
      (case map_of VALUE_TYPES tag of
         None \<Rightarrow> Inl (ValueError (''Unknown type: '' @ tag))
       | Some valtype \<Rightarrow> and_then (valtype (JObj d) eurl) (\<lambda>node. Inr (Node node)))"
    using assms by (simp add: var_value_def in_keys_iff and_then_def split: option.splits)
  also have "\<dots> =
      (case rdf_node eurl (JObj d) of
        Some n \<Rightarrow> Inr (Node n)
      | None \<Rightarrow> Inl (ValueError (''Unknown type: '' @ tag)))"
    by (simp add: known_tags rdf_node_object [OF assms(2)]
        new_URI_object new_Literal_object new_Bnode_object and_then_def)
  finally show ?thesis .
qed

lemma var_value_full:
  "map_of kvs v = Some t \<Longrightarrow> term_tag t = Some tag \<Longrightarrow>
   var_value eurl True (JObj kvs) (JStr v) =
     (case rdf_node eurl t of
        Some n \<Rightarrow> Inr (Node n)
      | None \<Rightarrow> Inl (ValueError (''Unknown type: '' @ tag)))"
  by (auto simp: term_tag_Some var_value_full_object)

lemma rdf_node_None:
  "term_tag t = Some tag \<Longrightarrow>
   rdf_node eurl t = None \<longleftrightarrow> tag \<noteq> ''uri'' \<and> tag \<noteq> ''literal'' \<and> tag \<noteq> ''bnode''"
  by (auto simp: term_tag_Some rdf_node_object)

lemma var_value_wf:
  assumes "\<And>t. map_of kvs v = Some t \<Longrightarrow> wf_term t"
  shows "\<exists>x. projected_value eurl fd kvs v = Some x
           \<and> var_value eurl fd (JObj kvs) (JStr v) = Inr x"
proof (cases "map_of kvs v")
  case None
  then show ?thesis by (simp add: projected_value_def var_value_unbound)
next
  case (Some t)
  from assms [OF Some] obtain d tag x where
    t: "t = JObj d" and tag: "term_tag t = Some tag"
    and known: "tag = ''uri'' \<or> tag = ''literal'' \<or> tag = ''bnode''"
    and x: "map_of d ''value'' = Some x"
    by (auto simp: wf_term_def split: jsonval.splits option.splits)
  show ?thesis
  proof (cases fd)
    case True
    from known tag obtain n where "rdf_node eurl t = Some n"
      using rdf_node_None [OF tag, of eurl] by (cases "rdf_node eurl t") auto
    with Some tag True show ?thesis
      by (simp add: projected_value_def var_value_full)
  next
    case False
    with Some t x show ?thesis
      by (simp add: projected_value_def var_value_raw)
  qed
qed

lemma dict_lookup_store:
  "dict_lookup (dict_store d (JStr k) x) (JStr k') =
     (if k = k' then Some x else dict_lookup d (JStr k'))"
  by (induction d) auto

lemma keys_dict_store:
  "map fst (dict_store d (JStr k) x) =
     (if JStr k \<in> set (map fst d) then map fst d else map fst d @ [JStr k])"
  by (induction d) force+

lemma wf_row_Cons:
  "wf_row (v # vs) row \<longleftrightarrow>
     (\<forall>t. map_of row v = Some t \<longrightarrow> wf_term t) \<and> wf_row vs row"
  by (auto simp: wf_row_def split: option.splits)

lemma row_values_wf:
  "wf_row vs kvs \<Longrightarrow>
   \<exists>r. row_values eurl fd (JObj kvs) (map JStr vs) acc = Inr r
     \<and> (\<forall>v. dict_lookup r (JStr v) =
            (if v \<in> set vs then projected_value eurl fd kvs v else dict_lookup acc (JStr v)))
     \<and> set (map fst r) = set (map fst acc) \<union> JStr ` set vs
     \<and> (distinct vs \<and> (\<forall>v \<in> set vs. JStr v \<notin> set (map fst acc))
          \<longrightarrow> map fst r = map fst acc @ map JStr vs)"
proof (induction vs arbitrary: acc)
  case Nil
  then show ?case by simp
next
  case (Cons v vs)
  from Cons.prems have wfv: "\<And>t. map_of kvs v = Some t \<Longrightarrow> wf_term t"
    and wfr: "wf_row vs kvs"
    by (simp_all add: wf_row_Cons)
  from var_value_wf [of kvs v eurl fd, OF wfv] obtain x where
    x: "projected_value eurl fd kvs v = Some x"
       "var_value eurl fd (JObj kvs) (JStr v) = Inr x"
    by blast
  let ?acc = "dict_store acc (JStr v) x"
  from Cons.IH [OF wfr, of ?acc] obtain r where
    r: "row_values eurl fd (JObj kvs) (map JStr vs) ?acc = Inr r"
       "\<forall>u. dict_lookup r (JStr u) =
            (if u \<in> set vs then projected_value eurl fd kvs u else dict_lookup ?acc (JStr u))"
       "set (map fst r) = set (map fst ?acc) \<union> JStr ` set vs"
       "distinct vs \<and> (\<forall>u \<in> set vs. JStr u \<notin> set (map fst ?acc))
          \<longrightarrow> map fst r = map fst ?acc @ map JStr vs"
    by blast
  have run: "row_values eurl fd (JObj kvs) (map JStr (v # vs)) acc = Inr r"
    using x r(1) by (simp add: dict_setitem_def)
  have look: "\<forall>u. dict_lookup r (JStr u) =
            (if u \<in> set (v # vs) then projected_value eurl fd kvs u
             else dict_lookup acc (JStr u))"
    using r(2) x(1) by (auto simp: dict_lookup_store)
  have keys: "set (map fst r) = set (map fst acc) \<union> JStr ` set (v # vs)"
    using r(3) by (auto simp: keys_dict_store split: if_splits)
  have ord: "distinct (v # vs) \<and> (\<forall>u \<in> set (v # vs). JStr u \<notin> set (map fst acc))
          \<longrightarrow> map fst r = map fst acc @ map JStr (v # vs)"
  proof (intro impI, elim conjE)
    assume d: "distinct (v # vs)" and f: "\<forall>u \<in> set (v # vs). JStr u \<notin> set (map fst acc)"
    then have k: "map fst ?acc = map fst acc @ [JStr v]"
      by (simp add: keys_dict_store)
    with d f have "\<forall>u \<in> set vs. JStr u \<notin> set (map fst ?acc)" by auto
    with r(4) d have "map fst r = map fst ?acc @ map JStr vs" by simp
    with k show "map fst r = map fst acc @ map JStr (v # vs)" by simp
  qed
  show ?case by (intro exI [where x = r] conjI) (fact run look keys ord)+
qed


lemma is_select_docE:
  assumes "is_select_doc data vs rows"
  obtains obj hdr rslt where "data = JObj obj"
    and "map_of obj ''head'' = Some (JObj hdr)"
    and "map_of obj ''results'' = Some (JObj rslt)"
    and "map_of hdr ''vars'' = Some (JArr (map JStr vs))"
    and "map_of rslt ''bindings'' = Some (JArr (map JObj rows))"
  using assms
  by (auto simp: is_select_doc_def split: jsonval.splits option.splits)

lemma select_data_doc:
  assumes "is_select_doc data vs rows"
  shows "select_data eurl fd data =
     and_then (select_rows eurl fd (JArr (map JStr vs)) (map JObj rows))
       (\<lambda>result. Inr (Some result))"
proof -
  from assms obtain obj hdr rslt where d: "data = JObj obj"
    and h: "map_of obj ''head'' = Some (JObj hdr)"
    and r: "map_of obj ''results'' = Some (JObj rslt)"
    and v: "map_of hdr ''vars'' = Some (JArr (map JStr vs))"
    and b: "map_of rslt ''bindings'' = Some (JArr (map JObj rows))"
    by (rule is_select_docE)
  from h have ne: "obj \<noteq> []" by auto
  from r have "''results'' \<in> fst ` set obj" by (simp add: in_keys_iff)
  with d h r v b ne show ?thesis
    by (simp add: select_data_def)
qed

lemma row_values_wf_empty:
  assumes "wf_row vs row"
  shows "\<exists>r. row_values eurl fd (JObj row) (map JStr vs) [] = Inr r
     \<and> (\<forall>v \<in> set vs. dict_lookup r (JStr v) = projected_value eurl fd row v)
     \<and> set (map fst r) = JStr ` set vs
     \<and> (distinct vs \<longrightarrow> map fst r = map JStr vs)"
proof -
  from row_values_wf [OF assms, of eurl fd "[]"] obtain r where
    "row_values eurl fd (JObj row) (map JStr vs) [] = Inr r"
    and "\<forall>v. dict_lookup r (JStr v) =
            (if v \<in> set vs then projected_value eurl fd row v else dict_lookup [] (JStr v))"
    and "set (map fst r) = set (map fst ([] :: pydict)) \<union> JStr ` set vs"
    and "distinct vs \<and> (\<forall>v \<in> set vs. JStr v \<notin> set (map fst ([] :: pydict)))
          \<longrightarrow> map fst r = map fst ([] :: pydict) @ map JStr vs"
    by blast
  then show ?thesis by simp
qed

lemma select_rows_wf:
  "list_all (wf_row vs) rows \<Longrightarrow>
   \<exists>res. select_rows eurl fd (JArr (map JStr vs)) (map JObj rows) = Inr res
     \<and> list_all2 (\<lambda>row r.
          (\<forall>v \<in> set vs. dict_lookup r (JStr v) = projected_value eurl fd row v
                           \<and> projected_value eurl fd row v \<noteq> None)
          \<and> set (map fst r) = JStr ` set vs
          \<and> (distinct vs \<longrightarrow> map fst r = map JStr vs)) rows res"
proof (induction rows)
  case Nil
  then show ?case by simp
next
  case (Cons row rows)
  then have wr: "wf_row vs row" and wrs: "list_all (wf_row vs) rows" by simp_all
  from row_values_wf_empty [OF wr, of eurl fd] obtain r where
    r: "row_values eurl fd (JObj row) (map JStr vs) [] = Inr r"
       "\<forall>v \<in> set vs. dict_lookup r (JStr v) = projected_value eurl fd row v"
       "set (map fst r) = JStr ` set vs"
       "distinct vs \<longrightarrow> map fst r = map JStr vs"
    by blast
  have some: "projected_value eurl fd row v \<noteq> None" if "v \<in> set vs" for v
  proof -
    from wr that have "\<And>t. map_of row v = Some t \<Longrightarrow> wf_term t"
      by (auto simp: wf_row_def list_all_iff)
    from var_value_wf [of row v eurl fd, OF this] show ?thesis by auto
  qed
  from Cons.IH [OF wrs] obtain res where
    res: "select_rows eurl fd (JArr (map JStr vs)) (map JObj rows) = Inr res"
      "list_all2 (\<lambda>row r.
          (\<forall>v \<in> set vs. dict_lookup r (JStr v) = projected_value eurl fd row v
                           \<and> projected_value eurl fd row v \<noteq> None)
          \<and> set (map fst r) = JStr ` set vs
          \<and> (distinct vs \<longrightarrow> map fst r = map JStr vs)) rows res"
    by blast
  have run: "select_rows eurl fd (JArr (map JStr vs)) (map JObj (row # rows)) = Inr (r # res)"
    using r(1) res(1) by simp
  have here: "(\<forall>v \<in> set vs. dict_lookup r (JStr v) = projected_value eurl fd row v
                           \<and> projected_value eurl fd row v \<noteq> None)
          \<and> set (map fst r) = JStr ` set vs
          \<and> (distinct vs \<longrightarrow> map fst r = map JStr vs)"
    using r(2,3,4) some by simp
  from run here res(2) show ?case by simp
qed

lemma bound_tags_Cons:
  "bound_tags (v # vs) row =
     (case map_of row v of
        None \<Rightarrow> bound_tags vs row
      | Some t \<Rightarrow> (case term_tag t of None \<Rightarrow> bound_tags vs row
                    | Some tag \<Rightarrow> tag # bound_tags vs row))"
  by (simp add: bound_tags_def split: option.splits)

lemma find_append_case:
  "find P (xs @ ys) = (case find P xs of Some x \<Rightarrow> Some x | None \<Rightarrow> find P ys)"
  by (induction xs) auto

lemma row_values_typed:
  "typed_row vs row \<Longrightarrow>
   (case find unknown_tag (bound_tags vs row) of
      Some tag \<Rightarrow>
        row_values eurl True (JObj row) (map JStr vs) acc
          = Inl (ValueError (''Unknown type: '' @ tag))
    | None \<Rightarrow> (\<exists>r. row_values eurl True (JObj row) (map JStr vs) acc = Inr r))"
proof (induction vs arbitrary: acc)
  case Nil
  then show ?case by (simp add: bound_tags_def)
next
  case (Cons v vs)
  then have tr: "typed_row vs row"
    and tv: "\<And>t. map_of row v = Some t \<Longrightarrow> term_tag t \<noteq> None"
    by (auto simp: typed_row_def)
  show ?case
  proof (cases "map_of row v")
    case None
    then have "var_value eurl True (JObj row) (JStr v) = Inr (Json JNull)"
      by (rule var_value_unbound)
    with None Cons.IH [OF tr, of "dict_store acc (JStr v) (Json JNull)"] show ?thesis
      by (simp add: bound_tags_Cons dict_setitem_def split: option.splits)
  next
    case (Some t)
    from tv [OF Some] obtain tag where tag: "term_tag t = Some tag" by auto
    show ?thesis
    proof (cases "unknown_tag tag")
      case True
      with tag have "rdf_node eurl t = None"
        by (simp add: rdf_node_None unknown_tag_def)
      with Some tag have "var_value eurl True (JObj row) (JStr v)
          = Inl (ValueError (''Unknown type: '' @ tag))"
        by (simp add: var_value_full)
      with Some tag True show ?thesis
        by (simp add: bound_tags_Cons)
    next
      case False
      with tag obtain n where "rdf_node eurl t = Some n"
        using rdf_node_None [OF tag, of eurl]
        by (cases "rdf_node eurl t") (auto simp: unknown_tag_def)
      with Some tag have "var_value eurl True (JObj row) (JStr v) = Inr (Node n)"
        by (simp add: var_value_full)
      with Some tag False Cons.IH [OF tr, of "dict_store acc (JStr v) (Node n)"]
      show ?thesis
        by (simp add: bound_tags_Cons dict_setitem_def split: option.splits)
    qed
  qed
qed

lemma select_rows_typed:
  "list_all (typed_row vs) rows \<Longrightarrow>
   (case find unknown_tag (concat (map (bound_tags vs) rows)) of
      Some tag \<Rightarrow>
        select_rows eurl True (JArr (map JStr vs)) (map JObj rows)
          = Inl (ValueError (''Unknown type: '' @ tag))
    | None \<Rightarrow> (\<exists>res. select_rows eurl True (JArr (map JStr vs)) (map JObj rows) = Inr res))"
proof (induction rows)
  case Nil
  then show ?case by simp
next
  case (Cons row rows)
  then have tr: "typed_row vs row" and trs: "list_all (typed_row vs) rows" by simp_all
  show ?case
  proof (cases "find unknown_tag (bound_tags vs row)")
    case (Some tag)
    with row_values_typed [OF tr, of eurl "[]"] show ?thesis
      by (simp add: find_append_case)
  next
    case None
    with row_values_typed [OF tr, of eurl "[]"] obtain r where
      "row_values eurl True (JObj row) (map JStr vs) [] = Inr r" by auto
    with None Cons.IH [OF trs] show ?thesis
      by (auto simp: find_append_case split: option.splits)
  qed
qed

lemma is_select_doc_select_doc: "is_select_doc (select_doc vs rows) vs rows"
  by (simp add: is_select_doc_def select_doc_def)

lemma query_json_response:
  "query (answering (json_response d)) patient self q headers n =
     Some (Inr d, self\<lparr>last_response := Some (json_response d)\<rparr>, Suc n)"
  by (simp add: query_answering decode_response_def json_response_def)

text \<open>
  C2. When \<open>query\<close> returns a document of the SELECT shape whose rows are well formed,
  \<open>select\<close> returns a list with one mapping per binding row, in the order of the rows.
  Each mapping has exactly the declared variables as keys (in declared order when
  they are distinct), and maps a variable to null when the row does not bind it, to
  the decoded RDF node in full-data mode, and to the raw \<open>value\<close> field otherwise. When
  \<open>query\<close> returns \<open>None\<close>, or an object without a \<open>results\<close> key, \<open>select\<close> returns
  \<open>None\<close>.
\<close>

theorem select_projects_rows:
  "(query fetch wait self q headers w = Some (Inr data, self', w')
      \<and> is_select_doc data vs rows \<and> list_all (wf_row vs) rows \<longrightarrow>
      (\<exists>res. select fetch wait self q full_data headers w = Some (Inr (Some res), self', w')
         \<and> list_all2 (\<lambda>row r.
              (\<forall>v \<in> set vs.
                  dict_lookup r (JStr v) = projected_value (entity_url self) full_data row v
                  \<and> projected_value (entity_url self) full_data row v \<noteq> None)
              \<and> set (map fst r) = JStr ` set vs
              \<and> (distinct vs \<longrightarrow> map fst r = map JStr vs)) rows res))
   \<and> (query fetch wait self q headers w = Some (Inr JNull, self', w') \<longrightarrow>
        select fetch wait self q full_data headers w = Some (Inr None, self', w'))
   \<and> (query fetch wait self q headers w = Some (Inr (JObj obj), self', w')
        \<and> map_of obj ''results'' = None \<longrightarrow>
        select fetch wait self q full_data headers w = Some (Inr None, self', w'))"
proof (intro conjI impI)
  assume a: "query fetch wait self q headers w = Some (Inr data, self', w')
      \<and> is_select_doc data vs rows \<and> list_all (wf_row vs) rows"
  then have eu: "entity_url self' = entity_url self"
    using query_frame [of fetch wait self q headers w "Inr data" self' w'] by simp
  from a have sel: "select fetch wait self q full_data headers w
      = Some (select_data (entity_url self) full_data data, self', w')"
    by (simp add: select_unfold eu)
  from a select_rows_wf [of vs rows "entity_url self" full_data] obtain res where
    res: "select_rows (entity_url self) full_data (JArr (map JStr vs)) (map JObj rows) = Inr res"
    and rel: "list_all2 (\<lambda>row r.
              (\<forall>v \<in> set vs.
                  dict_lookup r (JStr v) = projected_value (entity_url self) full_data row v
                  \<and> projected_value (entity_url self) full_data row v \<noteq> None)
              \<and> set (map fst r) = JStr ` set vs
              \<and> (distinct vs \<longrightarrow> map fst r = map JStr vs)) rows res"
    by blast
  from a have doc: "is_select_doc data vs rows" by simp
  from res have "select_data (entity_url self) full_data data = Inr (Some res)"
    by (simp add: select_data_doc [OF doc])
  with sel rel show "\<exists>res. select fetch wait self q full_data headers w
          = Some (Inr (Some res), self', w')
         \<and> list_all2 (\<lambda>row r.
              (\<forall>v \<in> set vs.
                  dict_lookup r (JStr v) = projected_value (entity_url self) full_data row v
                  \<and> projected_value (entity_url self) full_data row v \<noteq> None)
              \<and> set (map fst r) = JStr ` set vs
              \<and> (distinct vs \<longrightarrow> map fst r = map JStr vs)) rows res"
    by auto
next
  assume "query fetch wait self q headers w = Some (Inr JNull, self', w')"
  then show "select fetch wait self q full_data headers w = Some (Inr None, self', w')"
    by (simp add: select_unfold select_data_def)
next
  assume "query fetch wait self q headers w = Some (Inr (JObj obj), self', w')
        \<and> map_of obj ''results'' = None"
  then show "select fetch wait self q full_data headers w = Some (Inr None, self', w')"
    by (simp add: select_unfold select_data_def in_keys_iff)
qed

lemma wf_two_rows: "list_all (wf_row [''item'', ''itemLabel'']) two_rows"
  by (simp add: two_rows_def wf_row_def wf_term_def term_tag_def q42_def adams_def)

theorem select_projects_rows_witness:
  "is_select_doc (select_doc [''item'', ''itemLabel''] two_rows) [''item'', ''itemLabel''] two_rows
   \<and> list_all (wf_row [''item'', ''itemLabel'']) two_rows
   \<and> (\<exists>res. select (answering (json_response (select_doc [''item'', ''itemLabel''] two_rows)))
            patient wikidata ''SELECT ?item ?itemLabel WHERE {}'' True None 0
          = Some (Inr (Some res),
              wikidata\<lparr>last_response :=
                Some (json_response (select_doc [''item'', ''itemLabel''] two_rows))\<rparr>, 1)
        \<and> list_all2 (\<lambda>row r.
              (\<forall>v \<in> set [''item'', ''itemLabel''].
                  dict_lookup r (JStr v) = projected_value (entity_url wikidata) True row v
                  \<and> projected_value (entity_url wikidata) True row v \<noteq> None)
              \<and> set (map fst r) = JStr ` set [''item'', ''itemLabel'']
              \<and> (distinct [''item'', ''itemLabel'']
                    \<longrightarrow> map fst r = map JStr [''item'', ''itemLabel''])) two_rows res)"
  using select_projects_rows [where fetch = "answering (json_response (select_doc [''item'', ''itemLabel''] two_rows))"
      and wait = patient and self = wikidata and q = "''SELECT ?item ?itemLabel WHERE {}''"
      and headers = None and w = 0 and full_data = True
      and data = "select_doc [''item'', ''itemLabel''] two_rows"
      and self' = "wikidata\<lparr>last_response :=
                Some (json_response (select_doc [''item'', ''itemLabel''] two_rows))\<rparr>"
      and w' = 1 and vs = "[''item'', ''itemLabel'']" and rows = two_rows,
      THEN conjunct1]
    wf_two_rows is_select_doc_select_doc [of "[''item'', ''itemLabel'']" two_rows]
  by (simp only: query_json_response One_nat_def simp_thms)


lemma var_value_unknown:
  assumes "py_in var row = Inr True" and "py_getitem row var = Inr descr"
    and "py_getitem descr (JStr ''type'') = Inr t" and "hashable t"
    and "t \<noteq> JStr ''uri''" and "t \<noteq> JStr ''literal''" and "t \<noteq> JStr ''bnode''"
  shows "var_value eurl True row var = Inl (ValueError (''Unknown type: '' @ py_str t))"
proof -
  have "(case t of JStr s \<Rightarrow> map_of VALUE_TYPES s | _ \<Rightarrow> None) = None"
    using assms(5-7) by (cases t) (auto simp: VALUE_TYPES_def)
  with assms(1-4) show ?thesis
    by (simp add: var_value_def)
qed

text \<open>
  C3. In full-data mode, when the rows of a SELECT document bind the declared
  variables to terms with type tags and some tag is none of \<open>uri\<close>, \<open>literal\<close>,
  \<open>bnode\<close>, \<open>select\<close> raises \<open>ValueError\<close> with the message \<open>Unknown type: \<close> followed
  by the first such tag, in the order of rows and variables: no result is returned
  for any row. In the loop itself, a bound term whose \<open>type\<close> is any hashable value
  other than the three tags ends the loop with that \<open>ValueError\<close>, whatever was stored
  before and whatever follows.
\<close>

theorem select_unknown_type_fails:
  "(query fetch wait self q headers w = Some (Inr data, self', w')
      \<and> is_select_doc data vs rows \<and> list_all (typed_row vs) rows
      \<and> first_unknown_tag vs rows = Some tag \<longrightarrow>
      select fetch wait self q True headers w
        = Some (Inl (ValueError (''Unknown type: '' @ tag)), self', w')
      \<and> unknown_tag tag)
   \<and> (py_in var row = Inr True \<and> py_getitem row var = Inr descr
        \<and> py_getitem descr (JStr ''type'') = Inr t \<and> hashable t
        \<and> t \<noteq> JStr ''uri'' \<and> t \<noteq> JStr ''literal'' \<and> t \<noteq> JStr ''bnode'' \<longrightarrow>
      row_values eurl True row (var # qvars) vals
        = Inl (ValueError (''Unknown type: '' @ py_str t)))"
proof (intro conjI impI)
  assume a: "query fetch wait self q headers w = Some (Inr data, self', w')
      \<and> is_select_doc data vs rows \<and> list_all (typed_row vs) rows
      \<and> first_unknown_tag vs rows = Some tag"
  then have doc: "is_select_doc data vs rows" and typed: "list_all (typed_row vs) rows"
    and first: "find unknown_tag (concat (map (bound_tags vs) rows)) = Some tag"
    by (simp_all add: first_unknown_tag_def)
  from a have eu: "entity_url self' = entity_url self"
    using query_frame [of fetch wait self q headers w "Inr data" self' w'] by simp
  from select_rows_typed [OF typed, of "entity_url self"] first
  have "select_rows (entity_url self) True (JArr (map JStr vs)) (map JObj rows)
      = Inl (ValueError (''Unknown type: '' @ tag))"
    by simp
  then have "select_data (entity_url self) True data
      = Inl (ValueError (''Unknown type: '' @ tag))"
    by (simp add: select_data_doc [OF doc])
  with a eu show "select fetch wait self q True headers w
        = Some (Inl (ValueError (''Unknown type: '' @ tag)), self', w')"
    by (simp add: select_unfold)
  from first show "unknown_tag tag"
    by (auto simp: find_Some_iff)
next
  assume "py_in var row = Inr True \<and> py_getitem row var = Inr descr
        \<and> py_getitem descr (JStr ''type'') = Inr t \<and> hashable t
        \<and> t \<noteq> JStr ''uri'' \<and> t \<noteq> JStr ''literal'' \<and> t \<noteq> JStr ''bnode''"
  then have "var_value eurl True row var = Inl (ValueError (''Unknown type: '' @ py_str t))"
    by (intro var_value_unknown [where descr = descr]) simp_all
  then show "row_values eurl True row (var # qvars) vals
        = Inl (ValueError (''Unknown type: '' @ py_str t))"
    by simp
qed

lemma typed_triple_rows: "list_all (typed_row [''item'']) triple_rows"
  by (simp add: triple_rows_def typed_row_def term_tag_def q42_def quoted_triple_def)

lemma first_unknown_triple: "first_unknown_tag [''item''] triple_rows = Some ''triple''"
  by (simp add: first_unknown_tag_def triple_rows_def bound_tags_def term_tag_def
      q42_def quoted_triple_def unknown_tag_def)

theorem select_unknown_type_fails_witness:
  "is_select_doc (select_doc [''item''] triple_rows) [''item''] triple_rows
   \<and> list_all (typed_row [''item'']) triple_rows
   \<and> first_unknown_tag [''item''] triple_rows = Some ''triple''
   \<and> select (answering (json_response (select_doc [''item''] triple_rows))) patient wikidata
        ''SELECT ?item WHERE {}'' True None 0
      = Some (Inl (ValueError ''Unknown type: triple''),
          wikidata\<lparr>last_response := Some (json_response (select_doc [''item''] triple_rows))\<rparr>, 1)
   \<and> row_values ''http://www.wikidata.org/entity/'' True (JObj [(''item'', quoted_triple)])
        [JStr ''item''] []
      = Inl (ValueError ''Unknown type: triple'')"
proof -
  note thm1 = select_unknown_type_fails
    [where fetch = "answering (json_response (select_doc [''item''] triple_rows))"
      and wait = patient and self = wikidata and q = "''SELECT ?item WHERE {}''"
      and headers = None and w = 0 and data = "select_doc [''item''] triple_rows"
      and self' = "wikidata\<lparr>last_response :=
          Some (json_response (select_doc [''item''] triple_rows))\<rparr>"
      and w' = 1 and vs = "[''item'']" and rows = triple_rows and tag = "''triple''",
      THEN conjunct1]
  have 1: "select (answering (json_response (select_doc [''item''] triple_rows))) patient wikidata
        ''SELECT ?item WHERE {}'' True None 0
      = Some (Inl (ValueError ''Unknown type: triple''),
          wikidata\<lparr>last_response := Some (json_response (select_doc [''item''] triple_rows))\<rparr>, 1)"
    using thm1 typed_triple_rows first_unknown_triple
      is_select_doc_select_doc [of "[''item'']" triple_rows]
    by (simp add: query_json_response)
  have 2: "row_values ''http://www.wikidata.org/entity/'' True (JObj [(''item'', quoted_triple)])
        [JStr ''item''] []
      = Inl (ValueError ''Unknown type: triple'')"
    using select_unknown_type_fails
      [where var = "JStr ''item''" and row = "JObj [(''item'', quoted_triple)]"
        and descr = quoted_triple and t = "JStr ''triple''" and qvars = "[]"
        and eurl = "''http://www.wikidata.org/entity/''" and vals = "[]",
        THEN conjunct2]
    by (simp add: quoted_triple_def)
  from 1 2 typed_triple_rows first_unknown_triple
    is_select_doc_select_doc [of "[''item'']" triple_rows]
  show ?thesis by simp
qed

section \<open>Properties of \<open>get_items\<close>\<close>

lemma item_ids_Inr:
  "item_ids item_name res = Inr ids \<longleftrightarrow>
     list_all2 (\<lambda>r i. \<exists>x. dict_getitem r (JStr item_name) = Inr x \<and> call_getID x = Inr i) res ids"
proof (induction res arbitrary: ids)
  case Nil
  then show ?case by auto
next
  case (Cons r res)
  show ?case
  proof (cases ids)
    case Nil
    then show ?thesis
      by (auto simp: and_then_def split: sum.splits)
  next
    case (Cons i rest)
    with Cons.IH [of rest] show ?thesis
      by (auto simp: and_then_def split: sum.splits)
  qed
qed

lemma get_items_unfold:
  "get_items fetch wait self q item_name result_type w =
     (case select fetch wait self q True None w of
        None \<Rightarrow> None
      | Some (Inl e, self1, w1) \<Rightarrow> Some (Inl e, self1, w1)
      | Some (Inr res, self1, w1) \<Rightarrow>
          (if res = None \<or> res = Some [] then Some (Inr (result_type []), self1, w1)
           else Some (and_then (item_ids item_name (the res)) (\<lambda>ids. Inr (result_type ids)),
                      self1, w1)))"
  by (auto simp: get_items_def split: option.splits sum.splits list.splits)

lemma select_json_response:
  "select (answering (json_response d)) patient self q full_data headers n =
     Some (select_data (entity_url self) full_data d,
           self\<lparr>last_response := Some (json_response d)\<rparr>, Suc n)"
  by (simp add: select_unfold query_json_response)

lemma select_two_rows:
  "select_data ''http://www.wikidata.org/entity/'' True (select_doc [''item'', ''itemLabel''] two_rows)
   = Inr (Some
       [[(JStr ''item'',
          Node (URI (JStr ''http://www.wikidata.org/entity/Q42'') ''http://www.wikidata.org/entity/'')),
         (JStr ''itemLabel'', Node (Literal (JStr ''Douglas Adams'') JNull (JStr ''en'')))],
        [(JStr ''item'',
          Node (URI (JStr ''http://www.wikidata.org/entity/Q42'') ''http://www.wikidata.org/entity/'')),
         (JStr ''itemLabel'', Json JNull)]])"
  by (simp add: select_data_doc [OF is_select_doc_select_doc] two_rows_def q42_def adams_def
      var_value_def dict_setitem_def VALUE_TYPES_def new_URI_def new_Literal_def)


lemma query_unavailable:
  "query (answering unavailable) patient self q headers n =
     Some (Inr JNull, self\<lparr>last_response := Some unavailable\<rparr>, Suc n)"
  by (simp add: query_answering decode_response_def unavailable_def startswith_def cont_byte_def)

lemma select_unavailable:
  "select (answering unavailable) patient self q full_data headers n =
     Some (Inr None, self\<lparr>last_response := Some unavailable\<rparr>, Suc n)"
  by (simp add: select_unfold query_unavailable select_data_def)

lemma getID_entity_id: "getID (URI (JStr u) eurl) = Inr (entity_id eurl u)"
  by (simp add: entity_id_def startswith_prefix removeprefix_def)

lemma binds_uriE:
  assumes "binds_uri row v u"
  obtains d where "map_of row v = Some (JObj d)" and "map_of d ''type'' = Some (JStr ''uri'')"
    and "map_of d ''value'' = Some (JStr u)"
  using assms by (auto simp: binds_uri_def split: option.splits jsonval.splits)

lemma projected_uri:
  assumes "binds_uri row v u"
  shows "projected_value eurl True row v = Some (Node (URI (JStr u) eurl))"
proof -
  from assms obtain d where d: "map_of row v = Some (JObj d)"
    "map_of d ''type'' = Some (JStr ''uri'')" "map_of d ''value'' = Some (JStr u)"
    by (rule binds_uriE)
  then show ?thesis
    by (simp add: projected_value_def rdf_node_object [OF d(2)] field_def)
qed

lemma item_ids_of_rows:
  assumes rel: "list_all2 (\<lambda>row r. \<forall>v \<in> set vs.
        dict_lookup r (JStr v) = projected_value eurl True row v) rows res"
    and item: "item_name \<in> set vs"
    and ids: "list_all2 (\<lambda>row i. \<exists>u. binds_uri row item_name u \<and> i = entity_id eurl u) rows ids"
  shows "item_ids item_name res = Inr ids"
proof -
  have len: "length res = length ids"
    using list_all2_lengthD [OF rel] list_all2_lengthD [OF ids] by simp
  have "\<exists>x. dict_getitem (res ! n) (JStr item_name) = Inr x \<and> call_getID x = Inr (ids ! n)"
    if n: "n < length res" for n
  proof -
    from n rel have nr: "n < length rows" by (auto dest: list_all2_lengthD)
    from rel nr item
    have look: "dict_lookup (res ! n) (JStr item_name)
        = projected_value eurl True (rows ! n) item_name"
      by (auto simp: list_all2_conv_all_nth)
    from ids nr obtain u where u: "binds_uri (rows ! n) item_name u"
      and i: "ids ! n = entity_id eurl u"
      by (auto simp: list_all2_conv_all_nth)
    from look projected_uri [OF u, of eurl]
    have "dict_getitem (res ! n) (JStr item_name) = Inr (Node (URI (JStr u) eurl))"
      by (simp add: dict_getitem_def)
    moreover have "call_getID (Node (URI (JStr u) eurl)) = Inr (ids ! n)"
      by (simp only: call_getID.simps getID_entity_id i)
    ultimately show ?thesis by blast
  qed
  with len have "list_all2
      (\<lambda>r i. \<exists>x. dict_getitem r (JStr item_name) = Inr x \<and> call_getID x = Inr i) res ids"
    by (simp add: list_all2_conv_all_nth)
  then show ?thesis by (simp add: item_ids_Inr)
qed

lemma get_items_of_item_ids:
  assumes "select fetch wait self q True None w = Some (Inr (Some res), self', w')"
    and "item_ids item_name res = Inr ids"
  shows "get_items fetch wait self q item_name result_type w
     = Some (Inr (result_type ids), self', w')"
proof (cases res)
  case Nil
  with assms show ?thesis by (simp add: get_items_unfold)
next
  case (Cons r rs)
  with assms show ?thesis by (simp add: get_items_unfold)
qed

text \<open>
  C8. \<open>get_items\<close> runs \<open>select\<close> in full-data mode. When \<open>select\<close> returns \<open>None\<close> or
  an empty list, the result is the container built from no items. When \<open>query\<close>
  returns a SELECT document with well-formed rows, the named variable is declared
  and every row binds it to a URI, the result is the container built from the
  identifiers of these URIs, one per row in row order: the part of the URI after the
  executor's entity URI prefix, or \<open>None\<close> for a URI that does not start with it. With
  \<open>set\<close> it is the set of the identifiers, so that equal ones count once; with \<open>list\<close>
  it is their list, as long as the list of rows.
\<close>

theorem get_items_collects:
  "(select fetch wait self q True None w = Some (Inr sel, self', w')
      \<and> (sel = None \<or> sel = Some []) \<longrightarrow>
      get_items fetch wait self q item_name result_type w
        = Some (Inr (result_type []), self', w'))
   \<and> (query fetch wait self q None w = Some (Inr data, self', w')
      \<and> is_select_doc data vs rows \<and> list_all (wf_row vs) rows \<and> item_name \<in> set vs
      \<and> list_all2
           (\<lambda>row i. \<exists>u. binds_uri row item_name u \<and> i = entity_id (entity_url self) u)
           rows ids \<longrightarrow>
      get_items fetch wait self q item_name result_type w
        = Some (Inr (result_type ids), self', w')
      \<and> get_items fetch wait self q item_name py_set w = Some (Inr (set ids), self', w')
      \<and> get_items fetch wait self q item_name py_list w = Some (Inr ids, self', w')
      \<and> length ids = length rows)"
proof (intro conjI impI)
  assume "select fetch wait self q True None w = Some (Inr sel, self', w')
      \<and> (sel = None \<or> sel = Some [])"
  then show "get_items fetch wait self q item_name result_type w
        = Some (Inr (result_type []), self', w')"
    by (auto simp: get_items_unfold)
next
  assume a: "query fetch wait self q None w = Some (Inr data, self', w')
      \<and> is_select_doc data vs rows \<and> list_all (wf_row vs) rows \<and> item_name \<in> set vs
      \<and> list_all2
           (\<lambda>row i. \<exists>u. binds_uri row item_name u \<and> i = entity_id (entity_url self) u)
           rows ids"
  then have doc: "is_select_doc data vs rows" and wf: "list_all (wf_row vs) rows"
    and item: "item_name \<in> set vs"
    and ids: "list_all2
           (\<lambda>row i. \<exists>u. binds_uri row item_name u \<and> i = entity_id (entity_url self) u)
           rows ids"
    by simp_all
  from a have eu: "entity_url self' = entity_url self"
    using query_frame [of fetch wait self q None w "Inr data" self' w'] by simp
  from select_rows_wf [OF wf, of "entity_url self" True] obtain res where
    rows: "select_rows (entity_url self) True (JArr (map JStr vs)) (map JObj rows) = Inr res"
    and rel: "list_all2 (\<lambda>row r.
          (\<forall>v \<in> set vs. dict_lookup r (JStr v) = projected_value (entity_url self) True row v
                           \<and> projected_value (entity_url self) True row v \<noteq> None)
          \<and> set (map fst r) = JStr ` set vs
          \<and> (distinct vs \<longrightarrow> map fst r = map JStr vs)) rows res"
    by blast
  from rows have "select_data (entity_url self) True data = Inr (Some res)"
    by (simp add: select_data_doc [OF doc])
  with a eu have sel: "select fetch wait self q True None w = Some (Inr (Some res), self', w')"
    by (simp add: select_unfold)
  from rel have "list_all2 (\<lambda>row r. \<forall>v \<in> set vs.
        dict_lookup r (JStr v) = projected_value (entity_url self) True row v) rows res"
    by (rule list_all2_mono) simp
  from item_ids_of_rows [OF this item ids]
  have got: "item_ids item_name res = Inr ids" .
  from get_items_of_item_ids [OF sel got]
  show "get_items fetch wait self q item_name result_type w
        = Some (Inr (result_type ids), self', w')" .
  from get_items_of_item_ids [OF sel got, of py_set]
  show "get_items fetch wait self q item_name py_set w = Some (Inr (set ids), self', w')"
    by (simp add: py_set_def)
  from get_items_of_item_ids [OF sel got, of py_list]
  show "get_items fetch wait self q item_name py_list w = Some (Inr ids, self', w')"
    by (simp add: py_list_def)
  from ids show "length ids = length rows"
    by (auto dest: list_all2_lengthD)
qed

lemma wf_three_rows: "list_all (wf_row [''itemLabel'', ''item'']) three_rows"
  by (simp add: three_rows_def wf_row_def wf_term_def term_tag_def q42_def adams_def
      elsewhere_def)

lemma ids_three_rows:
  "list_all2
     (\<lambda>row i. \<exists>u. binds_uri row ''item'' u \<and> i = entity_id (entity_url wikidata) u)
     three_rows [Some ''Q42'', Some ''Q42'', None]"
proof -
  have a: "binds_uri [(''item'', q42), (''itemLabel'', adams)] ''item''
      ''http://www.wikidata.org/entity/Q42''"
    and b: "binds_uri [(''item'', q42)] ''item'' ''http://www.wikidata.org/entity/Q42''"
    and c: "binds_uri [(''itemLabel'', adams), (''item'', elsewhere)] ''item''
      ''http://example.org/Q42''"
    by (simp_all add: binds_uri_def q42_def elsewhere_def)
  have d: "entity_id (entity_url wikidata) ''http://www.wikidata.org/entity/Q42'' = Some ''Q42''"
    and e: "entity_id (entity_url wikidata) ''http://example.org/Q42'' = None"
    by (simp_all add: entity_id_def wikidata_def)
  from a b c d e show ?thesis
    unfolding three_rows_def by (auto simp del: map_of.simps)
qed

theorem get_items_collects_witness:
  "is_select_doc (select_doc [''itemLabel'', ''item''] three_rows) [''itemLabel'', ''item''] three_rows
   \<and> list_all (wf_row [''itemLabel'', ''item'']) three_rows
   \<and> get_items (answering (json_response (select_doc [''itemLabel'', ''item''] three_rows))) patient
       wikidata ''SELECT ?itemLabel ?item WHERE {}'' ''item'' py_set 0
     = Some (Inr {Some ''Q42'', None},
         wikidata\<lparr>last_response :=
           Some (json_response (select_doc [''itemLabel'', ''item''] three_rows))\<rparr>, 1)
   \<and> get_items (answering (json_response (select_doc [''itemLabel'', ''item''] three_rows))) patient
       wikidata ''SELECT ?itemLabel ?item WHERE {}'' ''item'' py_list 0
     = Some (Inr [Some ''Q42'', Some ''Q42'', None],
         wikidata\<lparr>last_response :=
           Some (json_response (select_doc [''itemLabel'', ''item''] three_rows))\<rparr>, 1)
   \<and> get_items (answering unavailable) patient wikidata ''SELECT ?item WHERE {}'' ''item'' py_set 0
     = Some (Inr {}, wikidata\<lparr>last_response := Some unavailable\<rparr>, 1)"
proof -
  let ?vs = "[''itemLabel'', ''item'']"
  let ?r = "json_response (select_doc ?vs three_rows)"
  note thm2 = get_items_collects
    [where fetch = "answering ?r" and wait = patient and self = wikidata
      and q = "''SELECT ?itemLabel ?item WHERE {}''" and w = 0 and item_name = "''item''"
      and data = "select_doc ?vs three_rows" and vs = ?vs and rows = three_rows
      and ids = "[Some ''Q42'', Some ''Q42'', None]" and result_type = py_set
      and self' = "wikidata\<lparr>last_response := Some ?r\<rparr>" and w' = 1,
      THEN conjunct2]
  have doc: "is_select_doc (select_doc ?vs three_rows) ?vs three_rows"
    by (rule is_select_doc_select_doc)
  from thm2 doc wf_three_rows ids_three_rows
  have 1: "get_items (answering ?r) patient wikidata ''SELECT ?itemLabel ?item WHERE {}''
        ''item'' py_set 0
      = Some (Inr {Some ''Q42'', None}, wikidata\<lparr>last_response := Some ?r\<rparr>, 1)"
    and 2: "get_items (answering ?r) patient wikidata ''SELECT ?itemLabel ?item WHERE {}''
        ''item'' py_list 0
      = Some (Inr [Some ''Q42'', Some ''Q42'', None], wikidata\<lparr>last_response := Some ?r\<rparr>, 1)"
    by (simp_all add: query_json_response py_set_def)
  have 3: "get_items (answering unavailable) patient wikidata ''SELECT ?item WHERE {}''
        ''item'' py_set 0
      = Some (Inr {}, wikidata\<lparr>last_response := Some unavailable\<rparr>, 1)"
    using get_items_collects
      [where fetch = "answering unavailable" and wait = patient and self = wikidata
        and q = "''SELECT ?item WHERE {}''" and w = 0 and item_name = "''item''"
        and sel = None and result_type = py_set
        and self' = "wikidata\<lparr>last_response := Some unavailable\<rparr>" and w' = 1,
        THEN conjunct1]
    by (simp add: select_unavailable py_set_def)
  from 1 2 3 doc wf_three_rows show ?thesis by simp
qed

lemma keys_dict_store_cong:
  "map fst d = map fst d' \<Longrightarrow> map fst (dict_store d k x) = map fst (dict_store d' k x')"
proof (induction d arbitrary: d')
  case Nil
  then show ?case by simp
next
  case (Cons p d)
  then obtain p' d'' where d': "d' = p' # d''" by (cases d') auto
  with Cons.prems have "fst p = fst p'" and "map fst d = map fst d''" by simp_all
  with Cons.IH [of d''] d' show ?case
    by (cases p; cases p') auto
qed

lemma row_values_keys:
  "row_values eurl fd row vars acc = Inr r \<Longrightarrow>
   row_values eurl fd row' vars acc' = Inr r' \<Longrightarrow>
   map fst acc = map fst acc' \<Longrightarrow> map fst r = map fst r'"
proof (induction vars arbitrary: acc acc')
  case Nil
  then show ?case by simp
next
  case (Cons var vars)
  from Cons.prems(1) obtain x where
    x: "var_value eurl fd row var = Inr x" "hashable var"
       "row_values eurl fd row vars (dict_store acc var x) = Inr r"
    by (auto simp: and_then_Inr dict_setitem_def split: if_splits)
  from Cons.prems(2) obtain x' where
    x': "var_value eurl fd row' var = Inr x'"
       "row_values eurl fd row' vars (dict_store acc' var x') = Inr r'"
    by (auto simp: and_then_Inr dict_setitem_def split: if_splits)
  from Cons.prems(3) have "map fst (dict_store acc var x) = map fst (dict_store acc' var x')"
    by (rule keys_dict_store_cong)
  from Cons.IH [OF x(3) x'(2) this] show ?case .
qed

lemma select_rows_origin:
  "select_rows eurl fd qvars rows = Inr res \<Longrightarrow> r \<in> set res \<Longrightarrow>
   \<exists>row vars. py_iter qvars = Inr vars \<and> row_values eurl fd row vars [] = Inr r"
proof (induction rows arbitrary: res)
  case Nil
  then show ?case by simp
next
  case (Cons row rows)
  from Cons.prems(1) obtain vars v rest where
    p: "py_iter qvars = Inr vars" "row_values eurl fd row vars [] = Inr v"
       "select_rows eurl fd qvars rows = Inr rest" "res = v # rest"
    by (auto simp: and_then_Inr)
  show ?case
  proof (cases "r = v")
    case True
    with p show ?thesis by blast
  next
    case False
    with Cons.prems(2) p(4) have "r \<in> set rest" by simp
    from Cons.IH [OF p(3) this] show ?thesis .
  qed
qed

lemma select_rows_same_keys:
  assumes "select_rows eurl fd qvars rows = Inr res" and "r \<in> set res" and "r' \<in> set res"
  shows "map fst r = map fst r'"
proof -
  from select_rows_origin [OF assms(1,2)] obtain row vars where
    a: "py_iter qvars = Inr vars" "row_values eurl fd row vars [] = Inr r" by blast
  from select_rows_origin [OF assms(1,3)] obtain row' vars' where
    b: "py_iter qvars = Inr vars'" "row_values eurl fd row' vars' [] = Inr r'" by blast
  from a(1) b(1) have "vars' = vars" by simp
  with a(2) b(2) show ?thesis
    by (auto intro: row_values_keys)
qed

lemma select_data_same_keys:
  assumes "select_data eurl fd data = Inr (Some res)" and "r \<in> set res" and "r' \<in> set res"
  shows "map fst r = map fst r'"
proof -
  from assms(1) obtain qvars rows where "select_rows eurl fd qvars rows = Inr res"
    by (auto simp: select_data_def and_then_Inr split: if_splits)
  from select_rows_same_keys [OF this assms(2,3)] show ?thesis .
qed

lemma dict_lookup_keys:
  "dict_lookup r k = None \<longleftrightarrow> \<not> list_ex (\<lambda>k'. py_eq k' k) (map fst r)"
  by (induction r) (auto split: if_splits)

lemma call_getID_error: "call_getID x = Inl e \<Longrightarrow> e = AttributeError"
  by (cases x rule: call_getID.cases)
    (auto split: jsonval.splits if_splits elim: getID.elims)

lemma item_ids_unbound:
  assumes "\<forall>r \<in> set res. dict_lookup r (JStr item_name) \<noteq> None"
    and "\<exists>r \<in> set res. dict_lookup r (JStr item_name) = Some (Json JNull)"
  shows "item_ids item_name res = Inl AttributeError"
  using assms
proof (induction res)
  case Nil
  then show ?case by simp
next
  case (Cons r res)
  from Cons.prems(1) obtain x where x: "dict_lookup r (JStr item_name) = Some x" by auto
  then have get: "dict_getitem r (JStr item_name) = Inr x" by (simp add: dict_getitem_def)
  show ?case
  proof (cases "call_getID x")
    case (Inl e)
    then have "e = AttributeError" by (rule call_getID_error)
    with Inl get show ?thesis by simp
  next
    case (Inr i)
    then have "x \<noteq> Json JNull" by auto
    with x Cons.prems(2) have ex: "\<exists>r \<in> set res. dict_lookup r (JStr item_name) = Some (Json JNull)"
      by auto
    from Cons.prems(1) have "\<forall>r \<in> set res. dict_lookup r (JStr item_name) \<noteq> None" by simp
    from Cons.IH [OF this ex] get Inr show ?thesis by simp
  qed
qed

lemma select_optional_rows:
  "select_data ''http://www.wikidata.org/entity/'' True (select_doc [''item''] optional_rows)
   = Inr (Some
       [[(JStr ''item'',
          Node (URI (JStr ''http://www.wikidata.org/entity/Q42'') ''http://www.wikidata.org/entity/''))],
        [(JStr ''item'', Json JNull)]])"
  by (simp add: select_data_doc [OF is_select_doc_select_doc] optional_rows_def q42_def
      var_value_def dict_setitem_def VALUE_TYPES_def new_URI_def)

text \<open>
  C10. When the result of \<open>select\<close> in full-data mode has a row that maps the named
  variable to \<open>None\<close>, \<open>get_items\<close> raises \<open>AttributeError\<close>, whatever the container
  type and the other rows: no row is skipped and no null identifier is returned.
\<close>

theorem get_items_unbound_raises:
  "select fetch wait self q True None w = Some (Inr (Some res), self', w')
     \<and> r \<in> set res \<and> dict_lookup r (JStr item_name) = Some (Json JNull) \<longrightarrow>
   get_items fetch wait self q item_name result_type w = Some (Inl AttributeError, self', w')"
proof
  assume a: "select fetch wait self q True None w = Some (Inr (Some res), self', w')
     \<and> r \<in> set res \<and> dict_lookup r (JStr item_name) = Some (Json JNull)"
  then obtain data where "select_data (entity_url self') True data = Inr (Some res)"
    by (auto simp: select_unfold split: option.splits sum.splits prod.splits)
  then have same: "\<And>r'. r' \<in> set res \<Longrightarrow> map fst r' = map fst r"
    using a by (auto intro: select_data_same_keys)
  have "\<forall>r' \<in> set res. dict_lookup r' (JStr item_name) \<noteq> None"
  proof
    fix r' assume "r' \<in> set res"
    from a have "dict_lookup r (JStr item_name) \<noteq> None" by simp
    then have "list_ex (\<lambda>k'. py_eq k' (JStr item_name)) (map fst r)"
      by (simp only: dict_lookup_keys simp_thms)
    with same [OF \<open>r' \<in> set res\<close>]
    have "list_ex (\<lambda>k'. py_eq k' (JStr item_name)) (map fst r')" by simp
    then show "dict_lookup r' (JStr item_name) \<noteq> None"
      by (simp only: dict_lookup_keys simp_thms)
  qed
  moreover from a have "\<exists>r \<in> set res. dict_lookup r (JStr item_name) = Some (Json JNull)"
    by auto
  ultimately have "item_ids item_name res = Inl AttributeError"
    by (rule item_ids_unbound)
  moreover from a have "res \<noteq> []" by auto
  ultimately show "get_items fetch wait self q item_name result_type w
      = Some (Inl AttributeError, self', w')"
    using a by (simp add: get_items_unfold)
qed


theorem get_items_unbound_raises_witness:
  "select (answering (json_response (select_doc [''item''] optional_rows))) patient wikidata
       ''SELECT ?item WHERE {}'' True None 0
     = Some (Inr (Some
         [[(JStr ''item'',
            Node (URI (JStr ''http://www.wikidata.org/entity/Q42'')
              ''http://www.wikidata.org/entity/''))],
          [(JStr ''item'', Json JNull)]]),
         wikidata\<lparr>last_response := Some (json_response (select_doc [''item''] optional_rows))\<rparr>,
         1)
   \<and> dict_lookup [(JStr ''item'', Json JNull)] (JStr ''item'') = Some (Json JNull)
   \<and> get_items (answering (json_response (select_doc [''item''] optional_rows))) patient wikidata
       ''SELECT ?item WHERE {}'' ''item'' py_list 0
     = Some (Inl AttributeError,
         wikidata\<lparr>last_response := Some (json_response (select_doc [''item''] optional_rows))\<rparr>,
         1)"
proof -
  let ?r = "json_response (select_doc [''item''] optional_rows)"
  let ?res = "[[(JStr ''item'',
            Node (URI (JStr ''http://www.wikidata.org/entity/Q42'')
              ''http://www.wikidata.org/entity/''))],
          [(JStr ''item'', Json JNull)]]"
  have sel: "select (answering ?r) patient wikidata ''SELECT ?item WHERE {}'' True None 0
      = Some (Inr (Some ?res), wikidata\<lparr>last_response := Some ?r\<rparr>, 1)"
    by (simp add: select_json_response select_optional_rows wikidata_def)
  have look: "dict_lookup [(JStr ''item'', Json JNull)] (JStr ''item'') = Some (Json JNull)"
    by simp
  have "get_items (answering ?r) patient wikidata ''SELECT ?item WHERE {}'' ''item'' py_list 0
      = Some (Inl AttributeError, wikidata\<lparr>last_response := Some ?r\<rparr>, 1)"
    using get_items_unbound_raises
      [where fetch = "answering ?r" and wait = patient and self = wikidata
        and q = "''SELECT ?item WHERE {}''" and w = 0 and item_name = "''item''"
        and res = ?res and r = "[(JStr ''item'', Json JNull)]" and result_type = py_list
        and self' = "wikidata\<lparr>last_response := Some ?r\<rparr>" and w' = 1]
      sel look
    by simp
  with sel look show ?thesis by simp
qed

end
